theory Spec2Isabelle
  imports Main "HOL-Library.Word" "HOL-Library.Sublist"
begin

section \<open>Exceptions\<close>

text \<open>
  Every \<^verbatim>\<open>OPENVINO_THROW\<close> and failed \<^verbatim>\<open>OPENVINO_ASSERT\<close> raises an
  \<^verbatim>\<open>ov::Exception\<close>. The model keeps the explanation text that the macro is given
  (the file and line prefix that the macro prepends is left out). A function that can
  raise returns \<open>Inl\<close> of the exception, together with the builder state reached so far.
\<close>

datatype error = Exception string

section \<open>The operation graph (consumed, immutable)\<close>

text \<open>
  \<^verbatim>\<open>ov::Dimension\<close>: a static length or a dynamic dimension.
  \<^verbatim>\<open>ov::PartialShape\<close>: a flag for a static rank and the vector of dimensions
  (empty when the rank is dynamic).
\<close>

datatype Dimension = Static nat | Dynamic

record PartialShape =
  rank_is_static :: bool
  dimensions :: "Dimension list"

datatype element_Type =
  undefined_t | dynamic_t | boolean | bf16 | f16 | f32 | f64 | i4 | i8 | i16 | i32 | i64
  | u1 | u4 | u8 | u16 | u32 | u64

text \<open>
  \<^verbatim>\<open>ov::NodeTypeInfo\<close> (\<^verbatim>\<open>ov::DiscreteTypeInfo\<close>): type name, version identifier and
  the pointer to the parent type, null at the root of the chain.
\<close>

datatype NodeTypeInfo =
  NodeTypeInfo (name: string) (version_id: string) (parent: "NodeTypeInfo option")

text \<open>
  An input of a node (\<^verbatim>\<open>descriptor::Input\<close>) points at one output of its producer:
  the model keeps the producer, the index of that output, and the shape and element type
  of the tensor seen through the pointer.
\<close>

datatype 'n Input =
  Input (source_node: 'n) (source_index: nat) (input_shape: PartialShape)
    (input_element_type: element_Type)

record Output_desc =
  output_shape :: PartialShape
  output_element_type :: element_Type

text \<open>The C++ class of a node, with the attributes the builders read.\<close>

datatype Op_class =
  MatMul (get_transpose_a: bool) (get_transpose_b: bool)
  | Other_op

datatype Node =
  Node (get_type_info: NodeTypeInfo) (get_friendly_name: string)
    (node_inputs: "Node Input list") (node_outputs: "Output_desc list") (op_class: Op_class)

definition get_type_name :: "Node \<Rightarrow> string" where
  "get_type_name op = name (get_type_info op)"

definition get_input_size :: "Node \<Rightarrow> nat" where
  "get_input_size op = length (node_inputs op)"

definition get_output_size :: "Node \<Rightarrow> nat" where
  "get_output_size op = length (node_outputs op)"

definition get_input_node_ptr :: "Node \<Rightarrow> nat \<Rightarrow> Node" where
  "get_input_node_ptr op i = source_node (node_inputs op ! i)"

definition get_input_source_output_index :: "Node \<Rightarrow> nat \<Rightarrow> nat" where
  "get_input_source_output_index op i = source_index (node_inputs op ! i)"

definition get_input_partial_shape :: "Node \<Rightarrow> nat \<Rightarrow> PartialShape" where
  "get_input_partial_shape op i = input_shape (node_inputs op ! i)"

definition get_input_element_type :: "Node \<Rightarrow> nat \<Rightarrow> element_Type" where
  "get_input_element_type op i = input_element_type (node_inputs op ! i)"

definition get_output_partial_shape :: "Node \<Rightarrow> nat \<Rightarrow> PartialShape" where
  "get_output_partial_shape op i = output_shape (node_outputs op ! i)"

definition get_output_element_type :: "Node \<Rightarrow> nat \<Rightarrow> element_Type" where
  "get_output_element_type op i = output_element_type (node_outputs op ! i)"


subsection \<open>Shapes\<close>

definition is_static :: "Dimension \<Rightarrow> bool" where
  "is_static d = (case d of Static n \<Rightarrow> True | Dynamic \<Rightarrow> False)"

definition is_dynamic :: "PartialShape \<Rightarrow> bool" where
  "is_dynamic ps = (\<not> rank_is_static ps \<or> list_ex (\<lambda>d. \<not> is_static d) (dimensions ps))"

definition size_ps :: "PartialShape \<Rightarrow> nat" where
  "size_ps ps = length (dimensions ps)"

text \<open>\<^verbatim>\<open>rank().get_length()\<close> raises on a dynamic rank.\<close>

definition rank_get_length :: "PartialShape \<Rightarrow> error + nat" where
  "rank_get_length ps =
     (if rank_is_static ps then Inr (length (dimensions ps))
      else Inl (Exception ''Cannot get length of dynamic dimension''))"

text \<open>\<^verbatim>\<open>to_shape()\<close> raises on a dynamic shape, and gives the lengths otherwise.\<close>

definition to_shape :: "PartialShape \<Rightarrow> error + nat list" where
  "to_shape ps =
     (if is_dynamic ps then Inl (Exception ''to_shape was called on a dynamic shape.'')
      else Inr (map (\<lambda>d. case d of Static n \<Rightarrow> n | Dynamic \<Rightarrow> 0) (dimensions ps)))"

definition get_output_shape :: "Node \<Rightarrow> nat \<Rightarrow> error + nat list" where
  "get_output_shape op i = to_shape (get_output_partial_shape op i)"

text \<open>
  Modelled from the spec: \<^verbatim>\<open>tensor_from_dims\<close> and \<^verbatim>\<open>cldnn::tensor::count\<close> are
  declared in headers that are not among the sources. The spec calls
  \<^verbatim>\<open>tensor_from_dims(shape).count()\<close> the operand's total element count: the tensor
  keeps the dimensions and its count is their product.
\<close>

type_synonym tensor = "nat list"

definition tensor_from_dims :: "nat list \<Rightarrow> tensor" where
  "tensor_from_dims dims = dims"

definition count :: "tensor \<Rightarrow> nat" where
  "count t = prod_list t"

subsection \<open>Node queries of the core library\<close>

text \<open>
  \<^verbatim>\<open>ov::is_type<T>(node)\<close>: the node's type info, or one of its ancestors, is the type
  info of \<open>T\<close> (compared by name and version).
\<close>

fun is_castable :: "NodeTypeInfo \<Rightarrow> string \<times> string \<Rightarrow> bool" where
  "is_castable (NodeTypeInfo n v p) target =
     ((n, v) = target \<or> (case p of None \<Rightarrow> False | Some t \<Rightarrow> is_castable t target))"

definition is_type :: "string \<times> string \<Rightarrow> Node \<Rightarrow> bool" where
  "is_type target op = is_castable (get_type_info op) target"

definition Split_v1 :: "string \<times> string" where
  "Split_v1 = (''Split'', ''opset1'')"

definition VariadicSplit_v1 :: "string \<times> string" where
  "VariadicSplit_v1 = (''VariadicSplit'', ''opset1'')"

definition FullyConnectedCompressed_t :: "string \<times> string" where
  "FullyConnectedCompressed_t = (''FullyConnectedCompressed'', ''gpu_opset'')"

text \<open>\<^verbatim>\<open>ov::Node::is_dynamic\<close>: some input of the node has a dynamic shape.\<close>

definition node_is_dynamic :: "Node \<Rightarrow> bool" where
  "node_is_dynamic op = list_ex (\<lambda>i. is_dynamic (get_input_partial_shape op i)) [0..<get_input_size op]"

subsection \<open>Strings and integers of the standard library\<close>

text \<open>\<^verbatim>\<open>std::tolower\<close> on an \<^verbatim>\<open>unsigned char\<close>, in the C locale.\<close>

definition tolower :: "char \<Rightarrow> char" where
  "tolower c =
     (case map_of (zip ''ABCDEFGHIJKLMNOPQRSTUVWXYZ'' ''abcdefghijklmnopqrstuvwxyz'') c of
        Some l \<Rightarrow> l
      | None \<Rightarrow> c)"

text \<open>\<^verbatim>\<open>std::to_string\<close> on a \<^verbatim>\<open>size_t\<close>: the decimal digits.\<close>

definition digit_char :: "nat \<Rightarrow> char" where
  "digit_char d = ''0123456789'' ! d"

fun to_string :: "nat \<Rightarrow> string" where
  "to_string n = (if n < 10 then [digit_char n] else to_string (n div 10) @ [digit_char (n mod 10)])"

declare to_string.simps [simp del]

text \<open>\<^verbatim>\<open>static_cast<int>\<close> of a \<^verbatim>\<open>size_t\<close>: the low 32 bits, read as signed.\<close>

definition static_cast_int :: "nat \<Rightarrow> int" where
  "static_cast_int n = sint (word_of_nat n :: 32 word)"

text \<open>\<^verbatim>\<open>ends_with\<close> of the plugin's utilities: the string ends with the given suffix.\<close>

definition ends_with :: "string \<Rightarrow> string \<Rightarrow> bool" where
  "ends_with s sfx = (length sfx \<le> length s \<and> drop (length s - length sfx) s = sfx)"

section \<open>Node identities\<close>

definition layer_type_lower :: "Node \<Rightarrow> string" where
  "layer_type_lower op = map tolower (get_type_name op)"

definition layer_type_name_ID :: "Node \<Rightarrow> string" where
  "layer_type_name_ID op = layer_type_lower op @ '':'' @ get_friendly_name op"


section \<open>Primitives and topology\<close>

text \<open>
  \<^verbatim>\<open>cldnn::input_info\<close>: the id of the producing primitive and the index of its output.
  The one-argument constructor leaves the index at 0.
\<close>

record input_info =
  pid :: string
  idx :: int

definition input_info_of :: "string \<Rightarrow> input_info" where
  "input_info_of p = \<lparr>pid = p, idx = 0\<rparr>"

text \<open>
  The primitive classes that the sources construct or test for, with the constructor
  arguments the builders pass; every other primitive class is kept by its type string.
  The scale and bias of a gemm are the constants 1 and 0.
\<close>

datatype primitive_kind =
  gemm (gemm_inputs: "input_info list") (output_data_type: element_Type)
    (transpose_input0: bool) (transpose_input1: bool) (alpha: int) (beta: int)
    (input_rank: nat) (weight_rank: nat)
  | permute (permute_input: input_info) (permute_order: "16 word list")
  | reshape (reshape_input: input_info) (reshape_output_shape: tensor)
  | data
  | mutable_data
  | other_primitive string

record primitive =
  primitive_id :: string
  kind :: primitive_kind
  origin_op_name :: string
  origin_op_type_name :: string

definition type_string :: "primitive \<Rightarrow> string" where
  "type_string prim =
     (case kind prim of
        gemm ins dt ta tb a b ra rb \<Rightarrow> ''gemm''
      | permute i ord \<Rightarrow> ''permute''
      | reshape i sh \<Rightarrow> ''reshape''
      | data \<Rightarrow> ''data''
      | mutable_data \<Rightarrow> ''mutable_data''
      | other_primitive s \<Rightarrow> s)"

definition is_mutable_data :: "primitive \<Rightarrow> bool" where
  "is_mutable_data prim = (case kind prim of mutable_data \<Rightarrow> True | _ \<Rightarrow> False)"

definition is_data :: "primitive \<Rightarrow> bool" where
  "is_data prim = (case kind prim of data \<Rightarrow> True | _ \<Rightarrow> False)"

definition new_primitive :: "string \<Rightarrow> primitive_kind \<Rightarrow> primitive" where
  "new_primitive i k = \<lparr>primitive_id = i, kind = k, origin_op_name = [], origin_op_type_name = []\<rparr>"

text \<open>
  Modelled from the spec: \<^verbatim>\<open>cldnn::topology\<close> is declared outside the sources. The spec
  describes it as an ordered, append-only collection of primitives.
\<close>

type_synonym topology = "primitive list"

definition topology_add_primitive :: "topology \<Rightarrow> primitive \<Rightarrow> topology" where
  "topology_add_primitive t prim = t @ [prim]"

section \<open>The program builder\<close>

record ExecutionConfig =
  enable_profiling :: bool
  partial_build_program :: bool
  optimize_data :: bool
  config_allow_new_shape_infer :: bool

record engine =
  supports_immad :: bool

text \<open>The profiling entry, with the fields that \<^verbatim>\<open>init_profile_info\<close> sets.\<close>

datatype Status = NOT_RUN | OPTIMIZED_OUT | EXECUTED

record PerfCounter =
  layerType :: string
  status :: Status
  cpu_uSec :: nat
  realTime_uSec :: nat
  isCPU :: bool
  parentPrimitive :: string

record 'cl ProgramBuilder =
  m_config :: ExecutionConfig
  m_engine :: engine
  queryMode :: bool
  allow_new_shape_infer :: bool
  m_topology :: "topology option"
  primitive_ids :: "string \<rightharpoonup> string"
  profiling_ids :: "string list"
  perfMap :: "string \<rightharpoonup> string \<times> PerfCounter"
  m_custom_layers :: "string \<rightharpoonup> 'cl"

text \<open>Inline members of the class declaration.\<close>

definition EnableQueryMode :: "'cl ProgramBuilder \<Rightarrow> 'cl ProgramBuilder" where
  "EnableQueryMode p = p\<lparr>queryMode := True\<rparr>"

definition DisableQueryMode :: "'cl ProgramBuilder \<Rightarrow> 'cl ProgramBuilder" where
  "DisableQueryMode p = p\<lparr>queryMode := False\<rparr>"

definition use_new_shape_infer :: "'cl ProgramBuilder \<Rightarrow> bool" where
  "use_new_shape_infer p = allow_new_shape_infer p"

definition prepare_build :: "'cl ProgramBuilder \<Rightarrow> 'cl ProgramBuilder" where
  "prepare_build p = p\<lparr>m_topology := Some []\<rparr>"

definition cleanup_build :: "'cl ProgramBuilder \<Rightarrow> 'cl ProgramBuilder" where
  "cleanup_build p = p\<lparr>m_topology := None\<rparr>"

subsection \<open>Input resolution\<close>

definition is_legacy_multiple_outputs :: "'cl ProgramBuilder \<Rightarrow> Node \<Rightarrow> bool" where
  "is_legacy_multiple_outputs p prevOp =
     (\<not> allow_new_shape_infer p \<or> is_type Split_v1 prevOp \<or> is_type VariadicSplit_v1 prevOp)"

text \<open>The key \<^verbatim>\<open>prevName\<close> that one iteration of the loop computes for input \<open>i\<close>.\<close>

definition prevName_of :: "'cl ProgramBuilder \<Rightarrow> Node \<Rightarrow> nat \<Rightarrow> string" where
  "prevName_of p op i =
     (let prevOp = get_input_node_ptr op i;
          prevName = layer_type_name_ID prevOp
      in if get_output_size prevOp > 1 \<and> is_legacy_multiple_outputs p prevOp
         then prevName @ ''.out'' @ to_string (get_input_source_output_index op i)
         else prevName)"

text \<open>One iteration of the loop: the reference pushed for input \<open>i\<close>, or the exception.\<close>

definition input_info_at :: "'cl ProgramBuilder \<Rightarrow> Node \<Rightarrow> nat \<Rightarrow> error + input_info" where
  "input_info_at p op i =
     (let prevOp = get_input_node_ptr op i;
          prevName = prevName_of p op i;
          out_idx = (if is_legacy_multiple_outputs p prevOp then 0
                     else static_cast_int (get_input_source_output_index op i))
      in if \<not> queryMode p then
           (case primitive_ids p prevName of
              None \<Rightarrow> Inl (Exception (''Input '' @ prevName @ '' hasn't been found in primitive_ids map''))
            | Some v \<Rightarrow> Inr \<lparr>pid = v, idx = out_idx\<rparr>)
         else Inr \<lparr>pid = prevName, idx = out_idx\<rparr>)"

fun GetInputInfo_loop ::
  "'cl ProgramBuilder \<Rightarrow> Node \<Rightarrow> nat list \<Rightarrow> input_info list \<Rightarrow> error + input_info list" where
  "GetInputInfo_loop p op [] inputInfo = Inr inputInfo"
| "GetInputInfo_loop p op (i # rest) inputInfo =
     (case input_info_at p op i of
        Inl e \<Rightarrow> Inl e
      | Inr x \<Rightarrow> GetInputInfo_loop p op rest (inputInfo @ [x]))"

definition GetInputInfo :: "'cl ProgramBuilder \<Rightarrow> Node option \<Rightarrow> error + input_info list" where
  "GetInputInfo p op_ptr =
     (case op_ptr of
        None \<Rightarrow> Inr []
      | Some op \<Rightarrow> GetInputInfo_loop p op [0..<get_input_size op] [])"

subsection \<open>Registering a primitive\<close>

definition init_profile_info :: "primitive \<Rightarrow> 'cl ProgramBuilder \<Rightarrow> 'cl ProgramBuilder" where
  "init_profile_info prim p =
     p\<lparr>perfMap := (perfMap p)(primitive_id prim \<mapsto>
          (primitive_id prim,
           \<lparr>layerType = origin_op_type_name prim, status = EXECUTED, cpu_uSec = 0,
            realTime_uSec = 0, isCPU = False, parentPrimitive = origin_op_name prim\<rparr>))\<rparr>"

text \<open>
  The primitive is shared with the caller, so the assignments to its origin fields are
  seen in the primitive that reaches the topology. The function returns the builder state;
  it raises, leaving the state as it was, when no topology is prepared.
\<close>

definition add_primitive ::
  "Node \<Rightarrow> primitive \<Rightarrow> string list \<Rightarrow> 'cl ProgramBuilder \<Rightarrow> (error + unit) \<times> 'cl ProgramBuilder" where
  "add_primitive op prim0 aliases p =
     (case m_topology p of
        None \<Rightarrow> (Inl (Exception ''[GPU] Invalid ProgramBuilder builder state: topology is nullptr''), p)
      | Some topo \<Rightarrow>
         (let prim1 = prim0\<lparr>origin_op_name := get_friendly_name op,
                             origin_op_type_name := get_type_name op\<rparr>;
              should_profile = (\<not> is_mutable_data prim1 \<and> \<not> is_data prim1);
              prim_id = primitive_id prim1;
              ident = layer_type_name_ID op;
              p1 = p\<lparr>primitive_ids := (primitive_ids p)(ident \<mapsto> prim_id)\<rparr>;
              multi_output_case = (ends_with prim_id ''.out0'' \<and> length prim_id > 5
                                   \<and> take (length prim_id - 5) prim_id = ident);
              p2 = (if ident \<noteq> prim_id
                    then p1\<lparr>primitive_ids := (primitive_ids p1)(prim_id \<mapsto> prim_id)\<rparr>
                    else p1);
              prim2 = (if ident \<noteq> prim_id \<and> \<not> multi_output_case
                       then prim1\<lparr>origin_op_type_name := type_string prim1\<rparr>
                       else prim1);
              p3 = (if enable_profiling (m_config p2) \<and> should_profile
                    then init_profile_info prim2 (p2\<lparr>profiling_ids := profiling_ids p2 @ [prim_id]\<rparr>)
                    else p2);
              p4 = p3\<lparr>primitive_ids := fold (\<lambda>alias m. m(alias \<mapsto> prim_id)) aliases (primitive_ids p3)\<rparr>
          in (Inr (), p4\<lparr>m_topology := Some (topology_add_primitive topo prim2)\<rparr>)))"

subsection \<open>Regime and arity checks\<close>

definition requires_new_shape_infer :: "Node \<Rightarrow> bool" where
  "requires_new_shape_infer op =
     (if node_is_dynamic op then True
      else if is_type FullyConnectedCompressed_t op then True
      else if list_ex (\<lambda>i. size_ps (get_output_partial_shape op i) > 6) [0..<get_output_size op] then True
      else if list_ex (\<lambda>i. size_ps (get_input_partial_shape op i) > 6) [0..<get_input_size op] then True
      else False)"

definition validate_inputs_count :: "Node \<Rightarrow> nat list \<Rightarrow> error + unit" where
  "validate_inputs_count op valid_inputs_count =
     (if list_ex (\<lambda>ic. get_input_size op = ic) valid_inputs_count then Inr ()
      else Inl (Exception (''Invalid inputs count ('' @ to_string (get_input_size op) @ '') in )''
             @ get_friendly_name op @ '' ('' @ get_type_name op @ '' ''
             @ version_id (get_type_info op) @ '')'')))"


subsection \<open>Sequencing of operations that may raise\<close>

text \<open>
  An operation on the builder returns its result, or the exception, and the builder state
  it leaves behind: assignments made before an exception stay made.
\<close>

type_synonym ('a, 'cl) builder_op = "'cl ProgramBuilder \<Rightarrow> (error + 'a) \<times> 'cl ProgramBuilder"

definition return :: "'a \<Rightarrow> ('a, 'cl) builder_op" where
  "return a p = (Inr a, p)"

definition throw :: "error \<Rightarrow> ('a, 'cl) builder_op" where
  "throw e p = (Inl e, p)"

definition lift :: "error + 'a \<Rightarrow> ('a, 'cl) builder_op" where
  "lift r p = (r, p)"

definition and_then :: "('a, 'cl) builder_op \<Rightarrow> ('a \<Rightarrow> ('b, 'cl) builder_op) \<Rightarrow> ('b, 'cl) builder_op" where
  "and_then m f p = (case m p of (Inl e, p') \<Rightarrow> (Inl e, p') | (Inr a, p') \<Rightarrow> f a p')"


subsection \<open>Dispatch of one node\<close>

text \<open>
  The registry \<^verbatim>\<open>factories_map\<close> is filled at start-up by the operation modules, and the
  custom-kernel builder \<^verbatim>\<open>CreateCustomOp\<close> is defined outside the sources: both are
  parameters. The \<^verbatim>\<open>topology\<close> parameter of the source function is not used by its body
  and is left out.
\<close>

type_synonym 'cl factory = "Node \<Rightarrow> (unit, 'cl) builder_op"

fun walk_type_chain ::
  "(NodeTypeInfo \<rightharpoonup> 'cl factory) \<Rightarrow> (Node \<Rightarrow> 'cl \<Rightarrow> (unit, 'cl) builder_op) \<Rightarrow> Node \<Rightarrow> NodeTypeInfo
     \<Rightarrow> (unit, 'cl) builder_op" where
  "walk_type_chain factories_map CreateCustomOp op (NodeTypeInfo n v par) p =
     (case m_custom_layers p (get_type_name op) of
        Some customLayer \<Rightarrow> CreateCustomOp op customLayer p
      | None \<Rightarrow>
         (case factories_map (NodeTypeInfo n v par) of
            Some factory_fn \<Rightarrow> factory_fn op p
          | None \<Rightarrow>
             (case par of
                Some parent_info \<Rightarrow> walk_type_chain factories_map CreateCustomOp op parent_info p
              | None \<Rightarrow>
                 throw (Exception (''Operation: '' @ get_friendly_name op
                          @ '' of type '' @ get_type_name op
                          @ ''('' @ version_id (get_type_info op) @ '') is not supported'')) p)))"

definition CreateSingleLayerPrimitive ::
  "(NodeTypeInfo \<rightharpoonup> 'cl factory) \<Rightarrow> (Node \<Rightarrow> 'cl \<Rightarrow> (unit, 'cl) builder_op) \<Rightarrow> Node
     \<Rightarrow> (unit, 'cl) builder_op" where
  "CreateSingleLayerPrimitive factories_map CreateCustomOp op p =
     walk_type_chain factories_map CreateCustomOp op (get_type_info op) p"

subsection \<open>The support query\<close>

definition is_op_supported ::
  "(NodeTypeInfo \<rightharpoonup> 'cl factory) \<Rightarrow> (Node \<Rightarrow> 'cl \<Rightarrow> (unit, 'cl) builder_op) \<Rightarrow> Node
     \<Rightarrow> 'cl ProgramBuilder \<Rightarrow> bool \<times> 'cl ProgramBuilder" where
  "is_op_supported factories_map CreateCustomOp op p =
     (let p1 = EnableQueryMode p;
          p2 = prepare_build p1;
          p3 = p2\<lparr>allow_new_shape_infer := requires_new_shape_infer op\<rparr>
      in case CreateSingleLayerPrimitive factories_map CreateCustomOp op p3 of
           (Inr u, p4) \<Rightarrow> (True, DisableQueryMode (cleanup_build p4))
         | (Inl e, p4) \<Rightarrow> (False, cleanup_build p4))"

subsection \<open>The build\<close>




section \<open>The matrix-multiply builder\<close>

text \<open>
  \<^verbatim>\<open>std::all_of\<close> over the last two dimensions of a shape, as the lambdas of
  \<^verbatim>\<open>canTransposeInputs\<close> use it; \<^verbatim>\<open>get_length\<close> is only read on a static dimension.
\<close>

definition all_of_last2 :: "(nat \<Rightarrow> bool) \<Rightarrow> PartialShape \<Rightarrow> bool" where
  "all_of_last2 P ps =
     list_all (\<lambda>dim. case dim of Static n \<Rightarrow> P n | Dynamic \<Rightarrow> False) (take 2 (rev (dimensions ps)))"

text \<open>
  The heuristic, with the threshold 100000 of the source under a name. As in the source,
  the element counts behind \<^verbatim>\<open>in0_very_large\<close> and \<^verbatim>\<open>in1_very_large\<close> are both computed
  from \<^verbatim>\<open>shapes[0]\<close>.
\<close>

definition large_tensor_threshold :: nat where
  "large_tensor_threshold = 100000"

definition canTransposeInputs ::
  "'cl ProgramBuilder \<Rightarrow> PartialShape list \<Rightarrow> bool \<Rightarrow> bool \<Rightarrow> element_Type \<Rightarrow> error + bool" where
  "canTransposeInputs p shapes transA transB type =
     (if \<not> transA \<and> \<not> transB then Inr False
      else if is_dynamic (shapes ! 0) \<or> is_dynamic (shapes ! 1)
              \<or> size_ps (shapes ! 0) < 2 \<or> size_ps (shapes ! 1) < 2 then Inr False
      else
        (let inputsAligned = (all_of_last2 (\<lambda>n. n mod 16 = 0) (shapes ! 0)
                              \<and> all_of_last2 (\<lambda>n. n mod 16 = 0) (shapes ! 1))
         in if inputsAligned then Inr False
            else
              (let in0_large = all_of_last2 (\<lambda>n. n \<ge> 64) (shapes ! 0);
                   in1_large = all_of_last2 (\<lambda>n. n \<ge> 64) (shapes ! 1);
                   is_u8_i8 = (type = i8 \<or> type = u8)
               in case to_shape (shapes ! 0) of
                    Inl e \<Rightarrow> Inl e
                  | Inr dims0 \<Rightarrow>
                     (case to_shape (shapes ! 0) of
                        Inl e \<Rightarrow> Inl e
                      | Inr dims1 \<Rightarrow>
                         (let in0_very_large = (count (tensor_from_dims dims0) > large_tensor_threshold);
                              in1_very_large = (count (tensor_from_dims dims1) > large_tensor_threshold);
                              needs_to_transpose_inputs =
                                ((in0_very_large \<or> in1_very_large) \<and> \<not> is_u8_i8
                                 \<and> \<not> supports_immad (m_engine p))
                          in Inr ((in0_large \<and> in1_large) \<or> needs_to_transpose_inputs))))))"

text \<open>
  \<^verbatim>\<open>std::iota\<close> into a vector of \<^verbatim>\<open>uint16_t\<close>, then the swap of the last two entries.
\<close>

definition transposeOrder_of :: "nat \<Rightarrow> 16 word list" where
  "transposeOrder_of n =
     (let order = map word_of_nat [0..<n]
      in order[n - 1 := order ! (n - 2), n - 2 := order ! (n - 1)])"

definition transposeInput ::
  "Node \<Rightarrow> PartialShape \<Rightarrow> string \<Rightarrow> string \<Rightarrow> (input_info, 'cl) builder_op" where
  "transposeInput op shape sfx primitiveId =
     (let transposeOrder = transposeOrder_of (size_ps shape);
          permuteName = get_friendly_name op @ sfx;
          permutePrim = new_primitive permuteName (permute (input_info_of primitiveId) transposeOrder)
      in and_then (add_primitive op permutePrim []) (\<lambda>u. return (input_info_of permuteName)))"

text \<open>
  Modelled from the spec: \<^verbatim>\<open>cldnn::element_type_to_data_type\<close> is declared in a header
  that is not among the sources. The spec says that the output element type is taken from
  the node directly.
\<close>

definition element_type_to_data_type :: "element_Type \<Rightarrow> element_Type" where
  "element_type_to_data_type t = t"

text \<open>The block guarded by \<^verbatim>\<open>canTransposeInputs\<close>: it updates the inputs and both flags.\<close>

definition transpose_fixup ::
  "Node \<Rightarrow> PartialShape list \<Rightarrow> input_info list \<Rightarrow> bool \<Rightarrow> bool
     \<Rightarrow> (input_info list \<times> bool \<times> bool, 'cl) builder_op" where
  "transpose_fixup op inputShapes inputs transA transB =
     and_then
       (if transA
        then and_then (transposeInput op (inputShapes ! 0) ''/transpose_a'' (pid (inputs ! 0)))
               (\<lambda>x. return (inputs[0 := x], False))
        else return (inputs, transA))
       (\<lambda>(inputs1, transA1).
          if transB
          then and_then (transposeInput op (inputShapes ! 1) ''/transpose_b'' (pid (inputs1 ! 1)))
                 (\<lambda>x. return (inputs1[1 := x], transA1, False))
          else return (inputs1, transA1, transB))"

text \<open>The tail of the builder: the legacy reshape of the output.\<close>

definition legacy_out_reshape :: "Node \<Rightarrow> string \<Rightarrow> (unit, 'cl) builder_op" where
  "legacy_out_reshape op layerName p =
     (if \<not> use_new_shape_infer p then
        (case get_output_shape op 0 of
           Inl e \<Rightarrow> throw e p
         | Inr outDims \<Rightarrow>
            (let outDimsN = length outDims
             in if outDimsN < 4 then
                  (let outputShape = tensor_from_dims outDims;
                       outReshapeName = layerName @ ''_cldnn_out_reshape'';
                       outReshapePrim = new_primitive outReshapeName
                                          (reshape (input_info_of layerName) outputShape)
                   in add_primitive op outReshapePrim [] p)
                else return () p))
      else return () p)"

definition CreateMatMulOp :: "Node \<Rightarrow> (unit, 'cl) builder_op" where
  "CreateMatMulOp op =
     and_then (lift (validate_inputs_count op [2])) (\<lambda>u.
     and_then (\<lambda>p. lift (GetInputInfo p (Some op)) p) (\<lambda>inputs.
       (let layerName = layer_type_name_ID op;
            shape_a = get_input_partial_shape op 0;
            shape_b = get_input_partial_shape op 1
        in
     and_then (lift (rank_get_length shape_a)) (\<lambda>rank_a.
     and_then (lift (rank_get_length shape_b)) (\<lambda>rank_b.
       (let transA = get_transpose_a (op_class op);
            transB = get_transpose_b (op_class op);
            inputShapes = [get_input_partial_shape op 0, get_input_partial_shape op 1]
        in
     and_then (\<lambda>p. lift (canTransposeInputs p inputShapes transA transB (get_input_element_type op 0)) p)
       (\<lambda>can.
     and_then (if can then transpose_fixup op inputShapes inputs transA transB
               else return (inputs, transA, transB))
       (\<lambda>(inputs1, transA1, transB1).
       (let gemmPrim = new_primitive layerName
                         (gemm inputs1 (element_type_to_data_type (get_output_element_type op 0))
                            transA1 transB1 1 0 rank_a rank_b)
        in
     and_then (add_primitive op gemmPrim []) (\<lambda>u.
       legacy_out_reshape op layerName))))))))))"

text \<open>
  The factory that \<^verbatim>\<open>REGISTER_FACTORY_IMPL(v0, MatMul)\<close> registers: a checked cast of the
  node to the MatMul class, then the builder. The registry below holds this one entry,
  under the type info of \<^verbatim>\<open>ov::op::v0::MatMul\<close>.
\<close>

definition MatMul_factory :: "'cl factory" where
  "MatMul_factory op =
     (case op_class op of
        MatMul ta tb \<Rightarrow> CreateMatMulOp op
      | Other_op \<Rightarrow> throw (Exception ''[GPU] Invalid ov Node type passed into CreateMatMulOp''))"

definition MatMul_v0 :: NodeTypeInfo where
  "MatMul_v0 = NodeTypeInfo ''MatMul'' ''opset1'' None"

definition matmul_registry :: "NodeTypeInfo \<rightharpoonup> 'cl factory" where
  "matmul_registry = Map.empty(MatMul_v0 \<mapsto> MatMul_factory)"


section \<open>Concrete graphs and builders\<close>

definition static_shape :: "nat list \<Rightarrow> PartialShape" where
  "static_shape dims = \<lparr>rank_is_static = True, dimensions = map Static dims\<rparr>"

definition Parameter_v0 :: NodeTypeInfo where
  "Parameter_v0 = NodeTypeInfo ''Parameter'' ''opset1'' None"

definition parameter_node :: "string \<Rightarrow> nat list \<Rightarrow> element_Type \<Rightarrow> Node" where
  "parameter_node nm dims t =
     Node Parameter_v0 nm [] [\<lparr>output_shape = static_shape dims, output_element_type = t\<rparr>] Other_op"

text \<open>
  A MatMul node named \<open>nm\<close> over two parameters \<open>a\<close> and \<open>b\<close> of the given static shapes and
  element type, with the declared output shape.
\<close>

definition matmul_node ::
  "string \<Rightarrow> nat list \<Rightarrow> nat list \<Rightarrow> nat list \<Rightarrow> element_Type \<Rightarrow> bool \<Rightarrow> bool \<Rightarrow> Node" where
  "matmul_node nm dims_a dims_b dims_out t ta tb =
     Node MatMul_v0 nm
       [Input (parameter_node ''a'' dims_a t) 0 (static_shape dims_a) t,
        Input (parameter_node ''b'' dims_b t) 0 (static_shape dims_b) t]
       [\<lparr>output_shape = static_shape dims_out, output_element_type = t\<rparr>]
       (MatMul ta tb)"

text \<open>A freshly constructed builder: no topology, empty tables, a device without immad.\<close>

definition fresh_builder :: "unit ProgramBuilder" where
  "fresh_builder =
     \<lparr>m_config = \<lparr>enable_profiling = False, partial_build_program = False,
                  optimize_data = False, config_allow_new_shape_infer = False\<rparr>,
      m_engine = \<lparr>supports_immad = False\<rparr>,
      queryMode = False,
      allow_new_shape_infer = False,
      m_topology = None,
      primitive_ids = Map.empty,
      profiling_ids = [],
      perfMap = Map.empty,
      m_custom_layers = Map.empty\<rparr>"

text \<open>
  The custom-kernel table of the concrete builders is empty. This stand-in for the
  custom-kernel builder, which adds nothing, is passed where one is asked for.
\<close>

definition no_custom_op :: "Node \<Rightarrow> unit \<Rightarrow> (unit, unit) builder_op" where
  "no_custom_op op customLayer = return ()"



definition mm_1000 :: Node where
  "mm_1000 = matmul_node ''mm'' [1000, 1000] [1000, 1000] [1000, 1000] f32 True False"

definition mm_16 :: Node where
  "mm_16 = matmul_node ''mm'' [16, 16] [16, 16] [16, 16] f32 True False"

text \<open>The state of a build in which the two parameters \<open>a\<close> and \<open>b\<close> have been lowered.\<close>

definition parameters_lowered :: "unit ProgramBuilder" where
  "parameters_lowered =
     snd (add_primitive (parameter_node ''b'' [1000, 1000] f32)
            (new_primitive ''parameter:b'' (other_primitive ''input_layout'')) []
       (snd (add_primitive (parameter_node ''a'' [1000, 1000] f32)
               (new_primitive ''parameter:a'' (other_primitive ''input_layout'')) []
          (prepare_build fresh_builder))))"

text \<open>
  A Split node with two outputs, one of the crops it is lowered to, and a node that reads
  the second output of the Split and a parameter.
\<close>

definition split_node :: Node where
  "split_node =
     Node (NodeTypeInfo ''Split'' ''opset1'' None) ''s''
       [Input (parameter_node ''x'' [4, 4] f32) 0 (static_shape [4, 4]) f32]
       [\<lparr>output_shape = static_shape [2, 4], output_element_type = f32\<rparr>,
        \<lparr>output_shape = static_shape [2, 4], output_element_type = f32\<rparr>]
       Other_op"

definition crop_out0 :: primitive where
  "crop_out0 = new_primitive ''split:s.out0'' (other_primitive ''crop'')"

definition split_consumer :: Node where
  "split_consumer =
     Node (NodeTypeInfo ''Add'' ''opset1'' None) ''sum''
       [Input split_node 1 (static_shape [2, 4]) f32,
        Input (parameter_node ''y'' [2, 4] f32) 0 (static_shape [2, 4]) f32]
       [\<lparr>output_shape = static_shape [2, 4], output_element_type = f32\<rparr>]
       Other_op"

text \<open>A node of a type that no module registers, with one ancestor type.\<close>

definition unregistered_node :: Node where
  "unregistered_node =
     Node (NodeTypeInfo ''Foo'' ''extension'' (Some (NodeTypeInfo ''Op'' ''util'' None))) ''foo1''
       [] [\<lparr>output_shape = static_shape [1], output_element_type = f32\<rparr>] Other_op"

text \<open>A node that reads the output of \<open>mm_16\<close>.\<close>

definition mm_consumer :: Node where
  "mm_consumer =
     Node (NodeTypeInfo ''Relu'' ''opset1'' None) ''act''
       [Input mm_16 0 (static_shape [16, 16]) f32]
       [\<lparr>output_shape = static_shape [16, 16], output_element_type = f32\<rparr>]
       Other_op"

text \<open>
  A builder left by a topology-only build of a dynamic model: the topology is still
  allocated and the new shape-inference regime is set.
\<close>

definition topology_only_builder :: "unit ProgramBuilder" where
  "topology_only_builder = fresh_builder\<lparr>allow_new_shape_infer := True, m_topology := Some []\<rparr>"

section \<open>Notions used to state the properties\<close>

text \<open>The type identities that the dispatch of a node visits: its own, then its ancestors.\<close>

fun type_chain :: "NodeTypeInfo \<Rightarrow> NodeTypeInfo list" where
  "type_chain (NodeTypeInfo n v par) =
     NodeTypeInfo n v par # (case par of None \<Rightarrow> [] | Some t \<Rightarrow> type_chain t)"

text \<open>
  The state in which the support query dispatches the node, and the part of the builder
  that is fixed at construction: configuration, engine and custom-kernel table.
\<close>

definition probe_state :: "Node \<Rightarrow> 'cl ProgramBuilder \<Rightarrow> 'cl ProgramBuilder" where
  "probe_state op p = (prepare_build (EnableQueryMode p))\<lparr>allow_new_shape_infer := requires_new_shape_infer op\<rparr>"

definition configuration :: "'cl ProgramBuilder \<Rightarrow> ExecutionConfig \<times> engine \<times> (string \<rightharpoonup> 'cl)" where
  "configuration p = (m_config p, m_engine p, m_custom_layers p)"

section \<open>Evaluation rules for the shape queries\<close>

lemma is_dynamic_static_shape: "\<not> is_dynamic (static_shape dims)"
  by (induction dims) (simp_all add: is_dynamic_def static_shape_def is_static_def)

lemma size_ps_static_shape: "size_ps (static_shape dims) = length dims"
  by (simp add: size_ps_def static_shape_def)

lemma to_shape_static_shape: "to_shape (static_shape dims) = Inr dims"
proof -
  have "map (\<lambda>d. case d of Static n \<Rightarrow> n | Dynamic \<Rightarrow> 0) (map Static dims) = dims"
    by (induction dims) simp_all
  then show ?thesis
    using is_dynamic_static_shape [of dims] by (simp add: to_shape_def static_shape_def)
qed

lemma rank_get_length_static_shape: "rank_get_length (static_shape dims) = Inr (length dims)"
  by (simp add: rank_get_length_def static_shape_def)

lemma all_of_last2_static_shape:
  "all_of_last2 P (static_shape dims) = list_all P (take 2 (rev dims))"
proof -
  have "list_all (\<lambda>dim. case dim of Static n \<Rightarrow> P n | Dynamic \<Rightarrow> False) (map Static xs) = list_all P xs"
    for xs by (induction xs) simp_all
  then show ?thesis
    by (simp add: all_of_last2_def static_shape_def rev_map take_map)
qed

lemmas static_shape_simps =
  is_dynamic_static_shape size_ps_static_shape to_shape_static_shape
  rank_get_length_static_shape all_of_last2_static_shape

section \<open>The transpose heuristic\<close>

text \<open>
  C1. The claim: for static inputs of rank at least 2 that are neither 16-aligned nor both
  large, the fixup is inserted exactly when one of the two operands has more than 100000
  elements, the element type is not i8/u8 and the device lacks immad; in particular when
  only the second operand is that large. The code computes \<^verbatim>\<open>in1_very_large\<close> from
  \<^verbatim>\<open>shapes[0]\<close>, so the second operand's element count is never read: for a transposed
  3x3 first operand and a 3x40000 second operand of type f32 on a device without immad,
  where the second operand has 120000 elements, the heuristic answers false.
\<close>

theorem canTransposeInputs_ignores_second_operand:
  "canTransposeInputs fresh_builder [static_shape [3, 3], static_shape [3, 40000]] True False f32
     = Inr False
   \<and> count (tensor_from_dims [3, 40000]) > large_tensor_threshold
   \<and> \<not> supports_immad (m_engine fresh_builder)"
  by (simp add: canTransposeInputs_def static_shape_simps count_def tensor_from_dims_def
      large_tensor_threshold_def fresh_builder_def)

section \<open>Registering a primitive: auxiliary facts\<close>

lemma layer_type_name_ID_nonempty: "layer_type_name_ID op \<noteq> []"
  by (simp add: layer_type_name_ID_def)

lemma ends_with_out0:
  "ends_with s ''.out0'' = (5 \<le> length s \<and> drop (length s - 5) s = ''.out0'')"
proof -
  have "length ''.out0'' = (5::nat)" by simp
  then show ?thesis unfolding ends_with_def by (simp only:)
qed

lemma multi_output_case_iff:
  assumes "ident \<noteq> []"
  shows "(ends_with prim_id ''.out0'' \<and> length prim_id > 5 \<and> take (length prim_id - 5) prim_id = ident)
         \<longleftrightarrow> prim_id = ident @ ''.out0''"
proof
  assume h: "ends_with prim_id ''.out0'' \<and> length prim_id > 5 \<and> take (length prim_id - 5) prim_id = ident"
  then have d: "drop (length prim_id - 5) prim_id = ''.out0''" by (simp only: ends_with_out0)
  have "take (length prim_id - 5) prim_id @ drop (length prim_id - 5) prim_id = prim_id"
    by (rule append_take_drop_id)
  with d h show "prim_id = ident @ ''.out0''" by metis
next
  assume e: "prim_id = ident @ ''.out0''"
  have l: "length prim_id = length ident + 5" using e by simp
  have "length prim_id > 5" using assms l by (cases ident) simp_all
  moreover have "ends_with prim_id ''.out0''" unfolding ends_with_out0 using e l by simp
  moreover have "take (length prim_id - 5) prim_id = ident" using e l by simp
  ultimately show "ends_with prim_id ''.out0'' \<and> length prim_id > 5 \<and> take (length prim_id - 5) prim_id = ident"
    by blast
qed

lemma add_primitive_topology:
  assumes "m_topology p = Some topo"
  shows "m_topology (snd (add_primitive op prim aliases p)) =
           Some (topo @ [prim\<lparr>origin_op_name := get_friendly_name op,
                    origin_op_type_name :=
                      (if layer_type_name_ID op \<noteq> primitive_id prim
                          \<and> primitive_id prim \<noteq> layer_type_name_ID op @ ''.out0''
                       then type_string prim else get_type_name op)\<rparr>])"
proof -
  have m: "(ends_with (primitive_id prim) ''.out0'' \<and> length (primitive_id prim) > 5
            \<and> take (length (primitive_id prim) - 5) (primitive_id prim) = layer_type_name_ID op)
           = (primitive_id prim = layer_type_name_ID op @ ''.out0'')"
    by (rule multi_output_case_iff [OF layer_type_name_ID_nonempty])
  have t: "type_string (prim\<lparr>origin_op_name := a, origin_op_type_name := b\<rparr>) = type_string prim" for a b
    by (simp add: type_string_def)
  show ?thesis
    using assms m
    by (auto simp add: add_primitive_def Let_def init_profile_info_def topology_add_primitive_def t)
qed

lemma fold_alias_upd:
  "fold (\<lambda>alias m. m(alias \<mapsto> v)) aliases m k = (if k \<in> set aliases then Some v else m k)"
  by (induction aliases arbitrary: m) auto

lemma add_primitive_no_topology:
  "m_topology p = None \<Longrightarrow> add_primitive op prim aliases p
     = (Inl (Exception ''[GPU] Invalid ProgramBuilder builder state: topology is nullptr''), p)"
  by (simp add: add_primitive_def)

lemma add_primitive_ok:
  "m_topology p = Some topo \<Longrightarrow> fst (add_primitive op prim aliases p) = Inr ()"
  by (simp add: add_primitive_def Let_def)

lemma add_primitive_ids:
  assumes "m_topology p = Some topo"
  shows "primitive_ids (snd (add_primitive op prim aliases p)) k =
           (if k \<in> set aliases \<or> k = primitive_id prim \<or> k = layer_type_name_ID op
            then Some (primitive_id prim) else primitive_ids p k)"
  using assms by (simp add: add_primitive_def Let_def fold_alias_upd init_profile_info_def)

lemma add_primitive_frame:
  "allow_new_shape_infer (snd (add_primitive op prim aliases p)) = allow_new_shape_infer p"
  "queryMode (snd (add_primitive op prim aliases p)) = queryMode p"
  "m_config (snd (add_primitive op prim aliases p)) = m_config p"
  "m_engine (snd (add_primitive op prim aliases p)) = m_engine p"
  "m_custom_layers (snd (add_primitive op prim aliases p)) = m_custom_layers p"
  by (simp_all add: add_primitive_def Let_def init_profile_info_def split: option.splits)

lemma add_primitive_returns:
  assumes "add_primitive op prim aliases p = (Inr u, p')"
  shows "\<exists>topo. m_topology p = Some topo"
  using assms by (cases "m_topology p") (simp_all add: add_primitive_def)


section \<open>Registering a primitive\<close>

text \<open>
  C3 (as amended). Every call of \<^verbatim>\<open>add_primitive\<close> that finds a topology prepared
  returns normally and records the primitive id under the node identity
  \<^verbatim>\<open>lowercase(type_name):friendly_name\<close>. When the id differs from the node identity it
  is also recorded as its own alias, and this includes the case where the id is the node
  identity suffixed with \<^verbatim>\<open>.out0\<close>. The primitive that reaches the topology carries the
  node's friendly name; its origin type name is the primitive's type string when the id
  differs from the node identity and is not the identity suffixed with \<^verbatim>\<open>.out0\<close>, and
  the node's type name otherwise. Every string in \<^verbatim>\<open>aliases\<close> is mapped to the primitive
  id.
\<close>

theorem add_primitive_records_aliases:
  assumes "m_topology p = Some topo"
  shows "fst (add_primitive op prim aliases p) = Inr ()
     \<and> primitive_ids (snd (add_primitive op prim aliases p)) (layer_type_name_ID op) = Some (primitive_id prim)
     \<and> (primitive_id prim \<noteq> layer_type_name_ID op \<longrightarrow>
          primitive_ids (snd (add_primitive op prim aliases p)) (primitive_id prim) = Some (primitive_id prim))
     \<and> (\<exists>added. m_topology (snd (add_primitive op prim aliases p)) = Some (topo @ [added])
          \<and> primitive_id added = primitive_id prim \<and> kind added = kind prim
          \<and> origin_op_name added = get_friendly_name op
          \<and> origin_op_type_name added =
               (if primitive_id prim \<noteq> layer_type_name_ID op
                   \<and> primitive_id prim \<noteq> layer_type_name_ID op @ ''.out0''
                then type_string prim else get_type_name op))
     \<and> (\<forall>alias \<in> set aliases.
          primitive_ids (snd (add_primitive op prim aliases p)) alias = Some (primitive_id prim))"
proof -
  have ok: "fst (add_primitive op prim aliases p) = Inr ()"
    using assms by (rule add_primitive_ok)
  have ids: "primitive_ids (snd (add_primitive op prim aliases p)) k =
               (if k \<in> set aliases \<or> k = primitive_id prim \<or> k = layer_type_name_ID op
                then Some (primitive_id prim) else primitive_ids p k)" for k
    using assms by (rule add_primitive_ids)
  have topo: "\<exists>added. m_topology (snd (add_primitive op prim aliases p)) = Some (topo @ [added])
          \<and> primitive_id added = primitive_id prim \<and> kind added = kind prim
          \<and> origin_op_name added = get_friendly_name op
          \<and> origin_op_type_name added =
               (if primitive_id prim \<noteq> layer_type_name_ID op
                   \<and> primitive_id prim \<noteq> layer_type_name_ID op @ ''.out0''
                then type_string prim else get_type_name op)"
    using add_primitive_topology [OF assms, of op prim aliases] by auto
  show ?thesis using ok ids topo by simp
qed

theorem add_primitive_records_aliases_witness:
  "m_topology (prepare_build fresh_builder) = Some []
   \<and> fst (add_primitive split_node crop_out0 [''split:s.0'', ''crop0''] (prepare_build fresh_builder)) = Inr ()
   \<and> primitive_ids (snd (add_primitive split_node crop_out0 [''split:s.0'', ''crop0''] (prepare_build fresh_builder)))
        ''split:s'' = Some ''split:s.out0''
   \<and> primitive_ids (snd (add_primitive split_node crop_out0 [''split:s.0'', ''crop0''] (prepare_build fresh_builder)))
        ''split:s.out0'' = Some ''split:s.out0''
   \<and> primitive_ids (snd (add_primitive split_node crop_out0 [''split:s.0'', ''crop0''] (prepare_build fresh_builder)))
        ''split:s.0'' = Some ''split:s.out0''
   \<and> primitive_ids (snd (add_primitive split_node crop_out0 [''split:s.0'', ''crop0''] (prepare_build fresh_builder)))
        ''crop0'' = Some ''split:s.out0''"
proof -
  have h: "m_topology (prepare_build fresh_builder) = Some []"
    by (simp add: prepare_build_def)
  have n: "layer_type_name_ID split_node = ''split:s''" "primitive_id crop_out0 = ''split:s.out0''"
    by (simp_all add: layer_type_name_ID_def layer_type_lower_def split_node_def get_type_name_def
        tolower_def crop_out0_def new_primitive_def)
  from add_primitive_records_aliases [OF h, of split_node crop_out0 "[''split:s.0'', ''crop0'']"]
  show ?thesis using h by (simp add: n)
qed

text \<open>
  C3, as stated, says that no self-alias is recorded when the id is the node identity
  suffixed with \<^verbatim>\<open>.out0\<close>. For the Split node \<open>s\<close> and its crop \<^verbatim>\<open>split:s.out0\<close> the
  assignment \<^verbatim>\<open>primitive_ids[prim_id] = prim_id\<close> is executed all the same: only the
  overwrite of the origin type name is guarded by the multi-output test.
\<close>

theorem add_primitive_out0_records_self_alias:
  "primitive_id crop_out0 = layer_type_name_ID split_node @ ''.out0''
   \<and> primitive_ids (snd (add_primitive split_node crop_out0 [] (prepare_build fresh_builder)))
        (primitive_id crop_out0) = Some (primitive_id crop_out0)
   \<and> primitive_ids (prepare_build fresh_builder) (primitive_id crop_out0) = None"
  by code_simp

section \<open>Input resolution: auxiliary facts\<close>

lemma static_cast_int_small: "k < 2 ^ 31 \<Longrightarrow> static_cast_int k = int k"
  unfolding static_cast_int_def by (simp add: signed_of_nat signed_take_bit_int_eq_self)

lemma GetInputInfo_loop_Inr:
  assumes "GetInputInfo_loop p op js acc = Inr infos"
  shows "length infos = length acc + length js
       \<and> (\<forall>k < length acc. infos ! k = acc ! k)
       \<and> (\<forall>k < length js. input_info_at p op (js ! k) = Inr (infos ! (length acc + k)))"
  using assms
proof (induction js arbitrary: acc)
  case Nil
  then show ?case by simp
next
  case (Cons j js)
  from Cons.prems obtain x where x: "input_info_at p op j = Inr x"
    and rest: "GetInputInfo_loop p op js (acc @ [x]) = Inr infos"
    by (auto split: sum.splits)
  from Cons.IH [OF rest] have len: "length infos = length (acc @ [x]) + length js"
    and pre: "\<forall>k < length (acc @ [x]). infos ! k = (acc @ [x]) ! k"
    and post: "\<forall>k < length js. input_info_at p op (js ! k) = Inr (infos ! (length (acc @ [x]) + k))"
    by blast+
  have "infos ! length acc = x" using pre by (simp add: nth_append)
  moreover have "\<forall>k < length acc. infos ! k = acc ! k"
    using pre by (auto simp: nth_append less_Suc_eq)
  ultimately show ?case using len post x
    by (auto simp: nth_Cons split: nat.splits)
qed


lemma GetInputInfo_loop_query:
  assumes "queryMode p"
  shows "GetInputInfo_loop p op js acc =
           Inr (acc @ map (\<lambda>i. \<lparr>pid = prevName_of p op i,
                  idx = (if is_legacy_multiple_outputs p (get_input_node_ptr op i) then 0
                         else static_cast_int (get_input_source_output_index op i))\<rparr>) js)"
  using assms by (induction js arbitrary: acc) (simp_all add: input_info_at_def Let_def)





lemma GetInputInfo_query:
  assumes "queryMode p"
  shows "GetInputInfo p (Some op) =
           Inr (map (\<lambda>i. \<lparr>pid = prevName_of p op i,
                  idx = (if is_legacy_multiple_outputs p (get_input_node_ptr op i) then 0
                         else static_cast_int (get_input_source_output_index op i))\<rparr>)
                [0..<get_input_size op])"
  using GetInputInfo_loop_query [OF assms, of op "[0..<get_input_size op]" "[]"]
  by (simp add: GetInputInfo_def)

lemma GetInputInfo_build_resolves:
  assumes "GetInputInfo p (Some op) = Inr infos" and "i < get_input_size op" and "\<not> queryMode p"
  shows "primitive_ids p (prevName_of p op i) = Some (pid (infos ! i))"
proof -
  from assms(1) have "GetInputInfo_loop p op [0..<get_input_size op] [] = Inr infos"
    by (simp add: GetInputInfo_def)
  from GetInputInfo_loop_Inr [OF this] assms(2)
  have "input_info_at p op i = Inr (infos ! i)" by auto
  from this [symmetric] assms(3) show ?thesis
    by (auto simp: input_info_at_def Let_def split: option.splits)
qed

lemma prevName_of_single_output:
  assumes "\<not> get_output_size (get_input_node_ptr op i) > 1"
  shows "prevName_of p op i = layer_type_name_ID (get_input_node_ptr op i)"
  using assms by (simp add: prevName_of_def Let_def)

lemma prevName_of_primitive_ids_update:
  "prevName_of (p\<lparr>primitive_ids := ids\<rparr>) op i = prevName_of p op i"
  by (simp add: prevName_of_def is_legacy_multiple_outputs_def)

lemma is_legacy_primitive_ids_update:
  "is_legacy_multiple_outputs (p\<lparr>primitive_ids := ids\<rparr>) prevOp = is_legacy_multiple_outputs p prevOp"
  by (simp add: is_legacy_multiple_outputs_def)

section \<open>Input resolution\<close>

text \<open>
  C4. Let \<^verbatim>\<open>GetInputInfo\<close> resolve the inputs of a node, and let \<open>i\<close> be one of its input
  edges whose output index is an output of the producer (and fits an \<^verbatim>\<open>int\<close>). The key
  that is looked up is the producer's identity, suffixed with \<^verbatim>\<open>.out\<close> and the decimal
  output index exactly when the producer has more than one output and the regime is legacy
  or the producer is a Split or VariadicSplit; the reference carries output index 0 in
  that case and the edge's own output index otherwise. In query mode the reference names
  the key itself, in build mode the entry of the identity map under that key.
\<close>

theorem GetInputInfo_multiple_outputs:
  assumes "GetInputInfo p (Some op) = Inr infos"
    and "i < get_input_size op"
    and "get_input_source_output_index op i < get_output_size (get_input_node_ptr op i)"
    and "get_input_source_output_index op i < 2 ^ 31"
  shows "prevName_of p op i =
           (if get_output_size (get_input_node_ptr op i) > 1
               \<and> (\<not> allow_new_shape_infer p \<or> is_type Split_v1 (get_input_node_ptr op i)
                    \<or> is_type VariadicSplit_v1 (get_input_node_ptr op i))
            then layer_type_name_ID (get_input_node_ptr op i) @ ''.out''
                   @ to_string (get_input_source_output_index op i)
            else layer_type_name_ID (get_input_node_ptr op i))
       \<and> length infos = get_input_size op
       \<and> (if queryMode p then pid (infos ! i) = prevName_of p op i
           else primitive_ids p (prevName_of p op i) = Some (pid (infos ! i)))
       \<and> idx (infos ! i) =
           (if get_output_size (get_input_node_ptr op i) > 1
               \<and> (\<not> allow_new_shape_infer p \<or> is_type Split_v1 (get_input_node_ptr op i)
                    \<or> is_type VariadicSplit_v1 (get_input_node_ptr op i))
            then 0
            else int (get_input_source_output_index op i))"
proof -
  let ?js = "[0..<get_input_size op]"
  from assms(1) have loop: "GetInputInfo_loop p op ?js [] = Inr infos"
    by (simp add: GetInputInfo_def)
  from GetInputInfo_loop_Inr [OF loop] assms(2)
  have len: "length infos = get_input_size op"
    and at: "input_info_at p op i = Inr (infos ! i)"
    by auto
  have name: "prevName_of p op i =
           (if get_output_size (get_input_node_ptr op i) > 1
               \<and> (\<not> allow_new_shape_infer p \<or> is_type Split_v1 (get_input_node_ptr op i)
                    \<or> is_type VariadicSplit_v1 (get_input_node_ptr op i))
            then layer_type_name_ID (get_input_node_ptr op i) @ ''.out''
                   @ to_string (get_input_source_output_index op i)
            else layer_type_name_ID (get_input_node_ptr op i))"
    by (simp add: prevName_of_def Let_def is_legacy_multiple_outputs_def)
  have pid: "if queryMode p then pid (infos ! i) = prevName_of p op i
           else primitive_ids p (prevName_of p op i) = Some (pid (infos ! i))"
    using at [symmetric] by (auto simp: input_info_at_def Let_def split: option.splits if_splits)
  have idx0: "idx (infos ! i) =
      (if is_legacy_multiple_outputs p (get_input_node_ptr op i) then 0
       else static_cast_int (get_input_source_output_index op i))"
    using at [symmetric] by (auto simp: input_info_at_def Let_def split: option.splits if_splits)
  have single: "get_input_source_output_index op i = 0"
    if "\<not> get_output_size (get_input_node_ptr op i) > 1"
    using that assms(3) by simp
  have idx: "idx (infos ! i) =
           (if get_output_size (get_input_node_ptr op i) > 1
               \<and> (\<not> allow_new_shape_infer p \<or> is_type Split_v1 (get_input_node_ptr op i)
                    \<or> is_type VariadicSplit_v1 (get_input_node_ptr op i))
            then 0
            else int (get_input_source_output_index op i))"
    using idx0 single static_cast_int_small [OF assms(4)]
    by (auto simp: is_legacy_multiple_outputs_def)
  show ?thesis using name len pid idx by blast
qed

theorem GetInputInfo_multiple_outputs_witness:
  "GetInputInfo (EnableQueryMode fresh_builder) (Some split_consumer) =
     Inr [\<lparr>pid = ''split:s.out1'', idx = 0\<rparr>, \<lparr>pid = ''parameter:y'', idx = 0\<rparr>]
   \<and> (0::nat) < get_input_size split_consumer
   \<and> get_input_source_output_index split_consumer 0 < get_output_size (get_input_node_ptr split_consumer 0)
   \<and> get_input_source_output_index split_consumer 0 < 2 ^ 31
   \<and> prevName_of (EnableQueryMode fresh_builder) split_consumer 0 = ''split:s.out1''
   \<and> idx ([\<lparr>pid = ''split:s.out1'', idx = 0\<rparr>, \<lparr>pid = ''parameter:y'', idx = 0\<rparr>] ! 0) = 0"
proof -
  have h1: "GetInputInfo (EnableQueryMode fresh_builder) (Some split_consumer) =
     Inr [\<lparr>pid = ''split:s.out1'', idx = 0\<rparr>, \<lparr>pid = ''parameter:y'', idx = 0\<rparr>]"
    by code_simp
  have h2: "(0::nat) < get_input_size split_consumer" by code_simp
  have h3: "get_input_source_output_index split_consumer 0 < get_output_size (get_input_node_ptr split_consumer 0)"
    by code_simp
  have h4: "get_input_source_output_index split_consumer 0 < 2 ^ 31"
    by (simp add: get_input_source_output_index_def split_consumer_def)
  have n: "prevName_of (EnableQueryMode fresh_builder) split_consumer 0 = ''split:s.out1''"
    by code_simp
  from GetInputInfo_multiple_outputs [OF h1 h2 h3 h4] h1 h2 h3 h4 n
  show ?thesis by simp
qed

section \<open>The matrix-multiply builder: auxiliary facts\<close>

lemma and_then_Inr: "m p = (Inr a, p') \<Longrightarrow> and_then m f p = f a p'"
  by (simp add: and_then_def)

lemma and_then_Inl: "m p = (Inl e, p') \<Longrightarrow> and_then m f p = (Inl e, p')"
  by (simp add: and_then_def)

lemma and_then_return: "and_then (return a) f p = f a p"
  by (simp add: and_then_def return_def)

lemma and_then_lift: "and_then (lift r) f p = (case r of Inl e \<Rightarrow> (Inl e, p) | Inr a \<Rightarrow> f a p)"
  by (cases r) (simp_all add: and_then_def lift_def)

lemma and_then_Inr_elim:
  assumes "and_then m f p = (Inr b, q)"
  obtains a p' where "m p = (Inr a, p')" and "f a p' = (Inr b, q)"
  using assms by (auto simp: and_then_def split: prod.splits sum.splits)

lemma add_primitive_eq:
  assumes "m_topology p = Some topo"
  shows "add_primitive op prim aliases p = (Inr (), snd (add_primitive op prim aliases p))"
  using add_primitive_ok [OF assms, of op prim aliases]
  by (cases "add_primitive op prim aliases p") simp

lemma validate_inputs_count_2: "get_input_size op = 2 \<Longrightarrow> validate_inputs_count op [2] = Inr ()"
  by (simp add: validate_inputs_count_def)

lemma CreateMatMulOp_unfold:
  assumes "get_input_size op = 2"
    and "GetInputInfo p (Some op) = Inr inputs"
    and "rank_get_length (get_input_partial_shape op 0) = Inr rank_a"
    and "rank_get_length (get_input_partial_shape op 1) = Inr rank_b"
    and "canTransposeInputs p [get_input_partial_shape op 0, get_input_partial_shape op 1]
           (get_transpose_a (op_class op)) (get_transpose_b (op_class op))
           (get_input_element_type op 0) = Inr can"
  shows "CreateMatMulOp op p =
           and_then (if can then transpose_fixup op [get_input_partial_shape op 0, get_input_partial_shape op 1]
                                   inputs (get_transpose_a (op_class op)) (get_transpose_b (op_class op))
                     else return (inputs, get_transpose_a (op_class op), get_transpose_b (op_class op)))
             (\<lambda>(inputs1, transA1, transB1).
                and_then (add_primitive op
                            (new_primitive (layer_type_name_ID op)
                               (gemm inputs1 (element_type_to_data_type (get_output_element_type op 0))
                                  transA1 transB1 1 0 rank_a rank_b)) [])
                  (\<lambda>u. legacy_out_reshape op (layer_type_name_ID op))) p"
  using assms
  by (simp add: CreateMatMulOp_def and_then_def lift_def Let_def validate_inputs_count_2)

lemma and_then_add_primitive:
  assumes "m_topology p = Some topo"
  shows "and_then (add_primitive op prim aliases) f p = f () (snd (add_primitive op prim aliases p))"
  using add_primitive_ok [OF assms, of op prim aliases]
  by (cases "add_primitive op prim aliases p") (auto simp: and_then_def)

lemma transposeInput_eq:
  assumes "m_topology p = Some topo"
  shows "transposeInput op shape sfx primitiveId p =
           (Inr (input_info_of (get_friendly_name op @ sfx)),
            snd (add_primitive op (new_primitive (get_friendly_name op @ sfx)
                   (permute (input_info_of primitiveId) (transposeOrder_of (size_ps shape)))) [] p))"
  by (simp add: transposeInput_def Let_def and_then_add_primitive [OF assms] return_def)

lemma matmul_node_simps:
  "get_input_size (matmul_node nm da db dout t ta tb) = 2"
  "get_input_partial_shape (matmul_node nm da db dout t ta tb) 0 = static_shape da"
  "get_input_partial_shape (matmul_node nm da db dout t ta tb) 1 = static_shape db"
  "get_input_partial_shape (matmul_node nm da db dout t ta tb) (Suc 0) = static_shape db"
  "get_input_element_type (matmul_node nm da db dout t ta tb) 0 = t"
  "op_class (matmul_node nm da db dout t ta tb) = MatMul ta tb"
  "get_friendly_name (matmul_node nm da db dout t ta tb) = nm"
  "get_type_name (matmul_node nm da db dout t ta tb) = ''MatMul''"
  "get_type_info (matmul_node nm da db dout t ta tb) = MatMul_v0"
  "layer_type_name_ID (matmul_node nm da db dout t ta tb) = ''matmul:'' @ nm"
  "get_output_shape (matmul_node nm da db dout t ta tb) 0 = Inr dout"
  "get_output_element_type (matmul_node nm da db dout t ta tb) 0 = t"
  by (simp_all add: matmul_node_def get_input_size_def get_input_partial_shape_def
      get_input_element_type_def get_type_name_def MatMul_v0_def layer_type_name_ID_def
      layer_type_lower_def tolower_def get_output_shape_def get_output_partial_shape_def
      get_output_element_type_def to_shape_static_shape)

lemma kind_add_primitive_last:
  assumes "m_topology p = Some topo"
  shows "\<exists>added. m_topology (snd (add_primitive op prim aliases p)) = Some (topo @ [added])
           \<and> primitive_id added = primitive_id prim \<and> kind added = kind prim"
  using add_primitive_topology [OF assms, of op prim aliases] by auto

lemma legacy_out_reshape_static:
  assumes "m_topology p = Some topo"
    and "get_output_shape op 0 = Inr dims"
  shows "fst (legacy_out_reshape op nm p) = Inr ()
       \<and> (\<exists>added. m_topology (snd (legacy_out_reshape op nm p)) = Some (topo @ added)
             \<and> map primitive_id added =
                 (if allow_new_shape_infer p \<or> 4 \<le> length dims then []
                  else [nm @ ''_cldnn_out_reshape''])
             \<and> map kind added =
                 (if allow_new_shape_infer p \<or> 4 \<le> length dims then []
                  else [reshape (input_info_of nm) dims]))"
proof (cases "allow_new_shape_infer p \<or> 4 \<le> length dims")
  case True
  then show ?thesis
    using assms by (auto simp: legacy_out_reshape_def use_new_shape_infer_def return_def Let_def)
next
  case False
  let ?prim = "new_primitive (nm @ ''_cldnn_out_reshape'') (reshape (input_info_of nm) dims)"
  have run: "legacy_out_reshape op nm p = add_primitive op ?prim [] p"
    using False assms(2)
    by (simp add: legacy_out_reshape_def use_new_shape_infer_def Let_def tensor_from_dims_def)
  from kind_add_primitive_last [OF assms(1), of op ?prim "[]"]
  obtain added where "m_topology (snd (add_primitive op ?prim [] p)) = Some (topo @ [added])"
    and "primitive_id added = nm @ ''_cldnn_out_reshape''"
    and "kind added = reshape (input_info_of nm) dims"
    by (auto simp: new_primitive_def)
  then show ?thesis
    using False run add_primitive_ok [OF assms(1), of op ?prim "[]"] by auto
qed

lemma canTransposeInputs_1000:
  "canTransposeInputs p [static_shape [1000, 1000], static_shape [1000, 1000]] True tb t = Inr True"
  by (simp add: canTransposeInputs_def static_shape_simps)

lemma canTransposeInputs_16:
  "canTransposeInputs p [static_shape [16, 16], static_shape [16, 16]] ta tb t = Inr False"
  by (simp add: canTransposeInputs_def static_shape_simps)


lemma transposeOrder_of_2: "transposeOrder_of (Suc (Suc 0)) = [1, 0]"
  by (simp add: transposeOrder_of_def)

lemma transpose_fixup_a_only:
  assumes "m_topology p = Some topo"
  shows "transpose_fixup op shapes inputs True False p =
           (Inr (inputs[0 := input_info_of (get_friendly_name op @ ''/transpose_a'')], False, False),
            snd (add_primitive op (new_primitive (get_friendly_name op @ ''/transpose_a'')
                   (permute (input_info_of (pid (inputs ! 0))) (transposeOrder_of (size_ps (shapes ! 0))))) [] p))"
  by (simp add: transpose_fixup_def and_then_def transposeInput_eq [OF assms] return_def)

lemma and_then_transpose_fixup_a_only:
  assumes "m_topology p = Some topo"
  shows "and_then (transpose_fixup op shapes inputs True False) f p =
           f (inputs[0 := input_info_of (get_friendly_name op @ ''/transpose_a'')], False, False)
            (snd (add_primitive op (new_primitive (get_friendly_name op @ ''/transpose_a'')
                   (permute (input_info_of (pid (inputs ! 0))) (transposeOrder_of (size_ps (shapes ! 0))))) [] p))"
  unfolding and_then_def [of "transpose_fixup op shapes inputs True False"]
  by (simp add: transpose_fixup_a_only [OF assms])

lemma parameters_lowered_simps:
  "m_topology parameters_lowered =
     Some [\<lparr>primitive_id = ''parameter:a'', kind = other_primitive ''input_layout'',
            origin_op_name = ''a'', origin_op_type_name = ''Parameter''\<rparr>,
           \<lparr>primitive_id = ''parameter:b'', kind = other_primitive ''input_layout'',
            origin_op_name = ''b'', origin_op_type_name = ''Parameter''\<rparr>]"
  "allow_new_shape_infer parameters_lowered = False"
  "queryMode parameters_lowered = False"
  by code_simp+

section \<open>The matrix-multiply builder on concrete shapes\<close>

text \<open>
  C5. A MatMul node \<open>nm\<close> over two static inputs of shape [1000, 1000], with
  \<^verbatim>\<open>transpose_a\<close> set and \<^verbatim>\<open>transpose_b\<close> clear, is lowered in any builder state that has a
  topology and resolves the two inputs: the builder adds a permute primitive named
  \<open>nm\<close>\<^verbatim>\<open>/transpose_a\<close> that reads the first resolved input and swaps the two axes, then a
  gemm named after the node whose first input is that permute, whose second input is
  unchanged and whose \<^verbatim>\<open>transpose_a\<close> flag is false, and then the legacy reshape when the
  regime asks for it. Nothing else is added.
\<close>

theorem matmul_large_inputs_transpose_fixup:
  assumes "m_topology p = Some topo"
    and "GetInputInfo p (Some (matmul_node nm [1000, 1000] [1000, 1000] dims_out t True False)) = Inr inputs"
  shows "fst (CreateMatMulOp (matmul_node nm [1000, 1000] [1000, 1000] dims_out t True False) p) = Inr ()
       \<and> length inputs = 2
       \<and> (\<exists>added. m_topology (snd (CreateMatMulOp (matmul_node nm [1000, 1000] [1000, 1000] dims_out t True False) p))
                     = Some (topo @ added)
             \<and> map primitive_id added =
                 (nm @ ''/transpose_a'') # (''matmul:'' @ nm) #
                 (if allow_new_shape_infer p \<or> 4 \<le> length dims_out then []
                  else [''matmul:'' @ nm @ ''_cldnn_out_reshape''])
             \<and> map kind added =
                 permute (input_info_of (pid (inputs ! 0))) [1, 0] #
                 gemm (inputs[0 := input_info_of (nm @ ''/transpose_a'')]) t False False 1 0 2 2 #
                 (if allow_new_shape_infer p \<or> 4 \<le> length dims_out then []
                  else [reshape (input_info_of (''matmul:'' @ nm)) dims_out]))"
proof -
  let ?op = "matmul_node nm [1000, 1000] [1000, 1000] dims_out t True False"
  let ?perm = "new_primitive (nm @ ''/transpose_a'') (permute (input_info_of (pid (inputs ! 0))) [1, 0])"
  let ?inputs1 = "inputs[0 := input_info_of (nm @ ''/transpose_a'')]"
  let ?gemm = "new_primitive (''matmul:'' @ nm) (gemm ?inputs1 t False False 1 0 2 2)"
  let ?p1 = "snd (add_primitive ?op ?perm [] p)"
  let ?p2 = "snd (add_primitive ?op ?gemm [] ?p1)"
  from kind_add_primitive_last [OF assms(1), of ?op ?perm "[]"]
  obtain pm where pm: "m_topology ?p1 = Some (topo @ [pm])"
    and pmid: "primitive_id pm = nm @ ''/transpose_a''"
    and pmk: "kind pm = permute (input_info_of (pid (inputs ! 0))) [1, 0]"
    by (auto simp: new_primitive_def)
  from kind_add_primitive_last [OF pm, of ?op ?gemm "[]"]
  obtain g where g: "m_topology ?p2 = Some ((topo @ [pm]) @ [g])"
    and gid: "primitive_id g = ''matmul:'' @ nm"
    and gk: "kind g = gemm ?inputs1 t False False 1 0 2 2"
    by (auto simp: new_primitive_def)
  have run: "CreateMatMulOp ?op p = legacy_out_reshape ?op (''matmul:'' @ nm) ?p2"
    using assms(2)
    by (subst CreateMatMulOp_unfold [where inputs = inputs and rank_a = 2 and rank_b = 2 and can = True])
       (simp_all add: matmul_node_simps static_shape_simps canTransposeInputs_1000
          and_then_transpose_fixup_a_only [OF assms(1)] transposeOrder_of_2
          and_then_add_primitive [OF pm] element_type_to_data_type_def)
  have allow: "allow_new_shape_infer ?p2 = allow_new_shape_infer p"
    by (simp add: add_primitive_frame)
  from legacy_out_reshape_static [OF g, of ?op dims_out "''matmul:'' @ nm"]
  obtain rest where ok: "fst (legacy_out_reshape ?op (''matmul:'' @ nm) ?p2) = Inr ()"
    and topo: "m_topology (snd (legacy_out_reshape ?op (''matmul:'' @ nm) ?p2)) = Some (((topo @ [pm]) @ [g]) @ rest)"
    and rid: "map primitive_id rest =
                 (if allow_new_shape_infer p \<or> 4 \<le> length dims_out then []
                  else [(''matmul:'' @ nm) @ ''_cldnn_out_reshape''])"
    and rk: "map kind rest =
                 (if allow_new_shape_infer p \<or> 4 \<le> length dims_out then []
                  else [reshape (input_info_of (''matmul:'' @ nm)) dims_out])"
    unfolding allow by (auto simp: matmul_node_simps)
  have len: "length inputs = 2"
    using GetInputInfo_loop_Inr [of p ?op "[0..<get_input_size ?op]" "[]" inputs] assms(2)
    by (simp add: GetInputInfo_def matmul_node_simps)
  have T: "m_topology (snd (CreateMatMulOp ?op p)) = Some (topo @ (pm # g # rest))"
    using topo run by simp
  have I: "map primitive_id (pm # g # rest) = (nm @ ''/transpose_a'') # (''matmul:'' @ nm) #
                 (if allow_new_shape_infer p \<or> 4 \<le> length dims_out then []
                  else [''matmul:'' @ nm @ ''_cldnn_out_reshape''])"
    using pmid gid rid by simp
  have K: "map kind (pm # g # rest) =
                 permute (input_info_of (pid (inputs ! 0))) [1, 0] #
                 gemm ?inputs1 t False False 1 0 2 2 #
                 (if allow_new_shape_infer p \<or> 4 \<le> length dims_out then []
                  else [reshape (input_info_of (''matmul:'' @ nm)) dims_out])"
    using pmk gk rk by simp
  have R: "fst (CreateMatMulOp ?op p) = Inr ()" using ok run by simp
  show ?thesis
    by (intro conjI R len exI [of _ "pm # g # rest"] T I K)
qed

theorem matmul_large_inputs_transpose_fixup_witness:
  "GetInputInfo parameters_lowered (Some mm_1000) =
     Inr [\<lparr>pid = ''parameter:a'', idx = 0\<rparr>, \<lparr>pid = ''parameter:b'', idx = 0\<rparr>]
   \<and> fst (CreateMatMulOp mm_1000 parameters_lowered) = Inr ()
   \<and> map kind (drop 2 (the (m_topology (snd (CreateMatMulOp mm_1000 parameters_lowered))))) =
       [permute \<lparr>pid = ''parameter:a'', idx = 0\<rparr> [1, 0],
        gemm [\<lparr>pid = ''mm/transpose_a'', idx = 0\<rparr>, \<lparr>pid = ''parameter:b'', idx = 0\<rparr>]
          f32 False False 1 0 2 2,
        reshape \<lparr>pid = ''matmul:mm'', idx = 0\<rparr> [1000, 1000]]
   \<and> map primitive_id (drop 2 (the (m_topology (snd (CreateMatMulOp mm_1000 parameters_lowered))))) =
       [''mm/transpose_a'', ''matmul:mm'', ''matmul:mm_cldnn_out_reshape'']"
proof -
  let ?inputs = "[\<lparr>pid = ''parameter:a'', idx = 0\<rparr>, \<lparr>pid = ''parameter:b'', idx = 0\<rparr>]"
  have gi: "GetInputInfo parameters_lowered (Some mm_1000) = Inr ?inputs"
    by code_simp
  note inst = matmul_large_inputs_transpose_fixup
    [OF parameters_lowered_simps(1) gi [unfolded mm_1000_def]]
  from inst gi show ?thesis
    by (elim conjE exE) (simp add: mm_1000_def parameters_lowered_simps(2) input_info_of_def)
qed

text \<open>
  C6. A MatMul node over two static inputs of shape [16, 16] with \<^verbatim>\<open>transpose_a\<close> set is
  lowered without any permute primitive: the builder adds the gemm, with the resolved
  inputs as they are and the \<^verbatim>\<open>transpose_a\<close> flag still true, and after it only the legacy
  reshape when the regime asks for it.
\<close>

theorem matmul_aligned_inputs_keep_transpose:
  assumes "m_topology p = Some topo"
    and "GetInputInfo p (Some (matmul_node nm [16, 16] [16, 16] dims_out t True tb)) = Inr inputs"
  shows "fst (CreateMatMulOp (matmul_node nm [16, 16] [16, 16] dims_out t True tb) p) = Inr ()
       \<and> (\<exists>added. m_topology (snd (CreateMatMulOp (matmul_node nm [16, 16] [16, 16] dims_out t True tb) p))
                     = Some (topo @ added)
             \<and> map primitive_id added =
                 (''matmul:'' @ nm) #
                 (if allow_new_shape_infer p \<or> 4 \<le> length dims_out then []
                  else [''matmul:'' @ nm @ ''_cldnn_out_reshape''])
             \<and> map kind added =
                 gemm inputs t True tb 1 0 2 2 #
                 (if allow_new_shape_infer p \<or> 4 \<le> length dims_out then []
                  else [reshape (input_info_of (''matmul:'' @ nm)) dims_out]))"
proof -
  let ?op = "matmul_node nm [16, 16] [16, 16] dims_out t True tb"
  let ?gemm = "new_primitive (''matmul:'' @ nm) (gemm inputs t True tb 1 0 2 2)"
  let ?p1 = "snd (add_primitive ?op ?gemm [] p)"
  have run: "CreateMatMulOp ?op p = legacy_out_reshape ?op (''matmul:'' @ nm) ?p1"
    using assms(2)
    by (subst CreateMatMulOp_unfold [where inputs = inputs and rank_a = 2 and rank_b = 2 and can = False])
       (simp_all add: matmul_node_simps static_shape_simps canTransposeInputs_16 and_then_return
          and_then_add_primitive [OF assms(1)] element_type_to_data_type_def)
  from kind_add_primitive_last [OF assms(1), of ?op ?gemm "[]"]
  obtain g where g: "m_topology ?p1 = Some (topo @ [g])"
    and gid: "primitive_id g = ''matmul:'' @ nm" and gk: "kind g = gemm inputs t True tb 1 0 2 2"
    by (auto simp: new_primitive_def)
  have allow: "allow_new_shape_infer ?p1 = allow_new_shape_infer p"
    by (rule add_primitive_frame)
  from legacy_out_reshape_static [OF g, of ?op dims_out "''matmul:'' @ nm"]
  obtain rest where ok: "fst (legacy_out_reshape ?op (''matmul:'' @ nm) ?p1) = Inr ()"
    and topo: "m_topology (snd (legacy_out_reshape ?op (''matmul:'' @ nm) ?p1)) = Some ((topo @ [g]) @ rest)"
    and rid: "map primitive_id rest =
                 (if allow_new_shape_infer p \<or> 4 \<le> length dims_out then []
                  else [(''matmul:'' @ nm) @ ''_cldnn_out_reshape''])"
    and rk: "map kind rest =
                 (if allow_new_shape_infer p \<or> 4 \<le> length dims_out then []
                  else [reshape (input_info_of (''matmul:'' @ nm)) dims_out])"
    unfolding allow by (auto simp: matmul_node_simps)
  have T: "m_topology (snd (CreateMatMulOp ?op p)) = Some (topo @ (g # rest))"
    using topo run by simp
  have I: "map primitive_id (g # rest) = (''matmul:'' @ nm) #
                 (if allow_new_shape_infer p \<or> 4 \<le> length dims_out then []
                  else [''matmul:'' @ nm @ ''_cldnn_out_reshape''])"
    using gid rid by simp
  have K: "map kind (g # rest) = gemm inputs t True tb 1 0 2 2 #
                 (if allow_new_shape_infer p \<or> 4 \<le> length dims_out then []
                  else [reshape (input_info_of (''matmul:'' @ nm)) dims_out])"
    using gk rk by simp
  have R: "fst (CreateMatMulOp ?op p) = Inr ()" using ok run by simp
  show ?thesis
    by (intro conjI R exI [of _ "g # rest"] T I K)
qed

theorem matmul_aligned_inputs_keep_transpose_witness:
  "GetInputInfo parameters_lowered (Some mm_16) =
     Inr [\<lparr>pid = ''parameter:a'', idx = 0\<rparr>, \<lparr>pid = ''parameter:b'', idx = 0\<rparr>]
   \<and> fst (CreateMatMulOp mm_16 parameters_lowered) = Inr ()
   \<and> map kind (drop 2 (the (m_topology (snd (CreateMatMulOp mm_16 parameters_lowered))))) =
       [gemm [\<lparr>pid = ''parameter:a'', idx = 0\<rparr>, \<lparr>pid = ''parameter:b'', idx = 0\<rparr>]
          f32 True False 1 0 2 2,
        reshape \<lparr>pid = ''matmul:mm'', idx = 0\<rparr> [16, 16]]
   \<and> map primitive_id (drop 2 (the (m_topology (snd (CreateMatMulOp mm_16 parameters_lowered))))) =
       [''matmul:mm'', ''matmul:mm_cldnn_out_reshape'']"
proof -
  have gi: "GetInputInfo parameters_lowered (Some mm_16) =
     Inr [\<lparr>pid = ''parameter:a'', idx = 0\<rparr>, \<lparr>pid = ''parameter:b'', idx = 0\<rparr>]"
    by code_simp
  note inst = matmul_aligned_inputs_keep_transpose
    [OF parameters_lowered_simps(1) gi [unfolded mm_16_def]]
  from inst gi show ?thesis
    by (elim conjE exE) (simp add: mm_16_def parameters_lowered_simps(2) input_info_of_def)
qed

section \<open>The matrix-multiply builder: when it raises and what it keeps\<close>

lemma add_primitive_topology_None:
  "(m_topology (snd (add_primitive op prim aliases p)) = None) = (m_topology p = None)"
  by (cases "m_topology p") (simp_all add: add_primitive_def Let_def init_profile_info_def)

lemma add_primitive_configuration:
  "configuration (snd (add_primitive op prim aliases p)) = configuration p"
  by (simp add: configuration_def add_primitive_frame)

lemma and_then_add_primitive_present:
  assumes "m_topology p \<noteq> None"
  shows "and_then (add_primitive op prim aliases) f p = f () (snd (add_primitive op prim aliases p))"
  using assms and_then_add_primitive by fastforce

lemma canTransposeInputs_total: "\<not> isl (canTransposeInputs p shapes ta tb ty)"
  by (simp add: canTransposeInputs_def to_shape_def Let_def)

lemma transposeInput_present:
  assumes "m_topology p \<noteq> None"
  shows "fst (transposeInput op shape sfx primitiveId p) = Inr (input_info_of (get_friendly_name op @ sfx))"
    and "m_topology (snd (transposeInput op shape sfx primitiveId p)) \<noteq> None"
    and "allow_new_shape_infer (snd (transposeInput op shape sfx primitiveId p)) = allow_new_shape_infer p"
  using assms
  by (auto simp: transposeInput_def Let_def and_then_add_primitive_present return_def
      add_primitive_topology_None add_primitive_frame)

lemma and_then_transposeInput:
  assumes "m_topology p \<noteq> None"
  shows "and_then (transposeInput op shape sfx primitiveId) f p =
           f (input_info_of (get_friendly_name op @ sfx)) (snd (transposeInput op shape sfx primitiveId p))"
  using transposeInput_present(1) [OF assms, of op shape sfx primitiveId]
  by (cases "transposeInput op shape sfx primitiveId p") (auto simp: and_then_def)

lemma transpose_fixup_present:
  assumes "m_topology p \<noteq> None"
  shows "\<not> isl (fst (transpose_fixup op shapes inputs ta tb p))"
    and "m_topology (snd (transpose_fixup op shapes inputs ta tb p)) \<noteq> None"
    and "allow_new_shape_infer (snd (transpose_fixup op shapes inputs ta tb p)) = allow_new_shape_infer p"
proof -
  let ?p1 = "snd (transposeInput op (shapes ! 0) ''/transpose_a'' (pid (inputs ! 0)) p)"
  have p1: "m_topology ?p1 \<noteq> None" "allow_new_shape_infer ?p1 = allow_new_shape_infer p"
    using transposeInput_present [OF assms] by blast+
  have a: "transpose_fixup op shapes inputs True tb p =
             (if tb then and_then (transposeInput op (shapes ! 1) ''/transpose_b''
                                     (pid (inputs[0 := input_info_of (get_friendly_name op @ ''/transpose_a'')] ! 1)))
                           (\<lambda>x. return (inputs[0 := input_info_of (get_friendly_name op @ ''/transpose_a''), 1 := x], False, False))
              else return (inputs[0 := input_info_of (get_friendly_name op @ ''/transpose_a'')], False, tb)) ?p1"
    unfolding transpose_fixup_def
    by (simp add: and_then_def [of "and_then _ _"] and_then_transposeInput [OF assms] return_def)
  have b: "transpose_fixup op shapes inputs False tb p =
             (if tb then and_then (transposeInput op (shapes ! 1) ''/transpose_b'' (pid (inputs ! 1)))
                           (\<lambda>x. return (inputs[1 := x], False, False))
              else return (inputs, False, tb)) p"
    unfolding transpose_fixup_def by (simp add: and_then_return)
  show "\<not> isl (fst (transpose_fixup op shapes inputs ta tb p))"
    using a b p1 assms
    by (cases ta; cases tb) (simp_all add: and_then_transposeInput return_def)
  show "m_topology (snd (transpose_fixup op shapes inputs ta tb p)) \<noteq> None"
    using a b p1 assms
    by (cases ta; cases tb) (simp_all add: and_then_transposeInput return_def transposeInput_present)
  show "allow_new_shape_infer (snd (transpose_fixup op shapes inputs ta tb p)) = allow_new_shape_infer p"
    using a b p1 assms
    by (cases ta; cases tb) (simp_all add: and_then_transposeInput return_def transposeInput_present)
qed

lemma legacy_out_reshape_outcome:
  assumes "m_topology p \<noteq> None"
  shows "isl (fst (legacy_out_reshape op nm p)) = (\<not> allow_new_shape_infer p \<and> isl (get_output_shape op 0))"
  using assms
  by (cases "get_output_shape op 0")
     (auto simp: legacy_out_reshape_def use_new_shape_infer_def throw_def return_def Let_def
       add_primitive_ok)

lemma CreateMatMulOp_outcome:
  assumes "m_topology p \<noteq> None"
  shows "isl (fst (CreateMatMulOp op p)) =
           (get_input_size op \<noteq> 2 \<or> isl (GetInputInfo p (Some op))
            \<or> isl (rank_get_length (get_input_partial_shape op 0))
            \<or> isl (rank_get_length (get_input_partial_shape op 1))
            \<or> (\<not> allow_new_shape_infer p \<and> isl (get_output_shape op 0)))"
proof (cases "get_input_size op \<noteq> 2 \<or> isl (GetInputInfo p (Some op))
            \<or> isl (rank_get_length (get_input_partial_shape op 0))
            \<or> isl (rank_get_length (get_input_partial_shape op 1))")
  case True
  then have "isl (fst (CreateMatMulOp op p))"
    by (auto simp: CreateMatMulOp_def and_then_def lift_def validate_inputs_count_def Let_def
        split: sum.splits)
  with True show ?thesis by blast
next
  case False
  then obtain inputs rank_a rank_b where size: "get_input_size op = 2"
    and gi: "GetInputInfo p (Some op) = Inr inputs"
    and ra: "rank_get_length (get_input_partial_shape op 0) = Inr rank_a"
    and rb: "rank_get_length (get_input_partial_shape op 1) = Inr rank_b"
    by (auto simp: isl_def) (metis sum.exhaust)
  obtain can where can: "canTransposeInputs p [get_input_partial_shape op 0, get_input_partial_shape op 1]
           (get_transpose_a (op_class op)) (get_transpose_b (op_class op))
           (get_input_element_type op 0) = Inr can"
    using canTransposeInputs_total
      [of p "[get_input_partial_shape op 0, get_input_partial_shape op 1]"
          "get_transpose_a (op_class op)" "get_transpose_b (op_class op)" "get_input_element_type op 0"]
    by (cases "canTransposeInputs p [get_input_partial_shape op 0, get_input_partial_shape op 1]
           (get_transpose_a (op_class op)) (get_transpose_b (op_class op))
           (get_input_element_type op 0)") auto
  let ?shapes = "[get_input_partial_shape op 0, get_input_partial_shape op 1]"
  let ?ta = "get_transpose_a (op_class op)" and ?tb = "get_transpose_b (op_class op)"
  let ?first = "if can then transpose_fixup op ?shapes inputs ?ta ?tb else return (inputs, ?ta, ?tb)"
  obtain r p1 where first: "?first p = (Inr r, p1)" and p1: "m_topology p1 \<noteq> None"
    and allow1: "allow_new_shape_infer p1 = allow_new_shape_infer p"
  proof (cases can)
    case True
    from transpose_fixup_present [OF assms, of op ?shapes inputs ?ta ?tb]
    have "\<not> isl (fst (transpose_fixup op ?shapes inputs ?ta ?tb p))"
      and "m_topology (snd (transpose_fixup op ?shapes inputs ?ta ?tb p)) \<noteq> None"
      and "allow_new_shape_infer (snd (transpose_fixup op ?shapes inputs ?ta ?tb p)) = allow_new_shape_infer p"
      by blast+
    with True that [of _ "snd (transpose_fixup op ?shapes inputs ?ta ?tb p)"] show ?thesis
      by (cases "transpose_fixup op ?shapes inputs ?ta ?tb p"; cases "fst (transpose_fixup op ?shapes inputs ?ta ?tb p)") auto
  next
    case False
    with assms that [of "(inputs, ?ta, ?tb)" p] show ?thesis by (simp add: return_def)
  qed
  obtain inputs1 transA1 transB1 where r: "r = (inputs1, transA1, transB1)" by (cases r)
  let ?gemm = "new_primitive (layer_type_name_ID op)
                 (gemm inputs1 (element_type_to_data_type (get_output_element_type op 0))
                    transA1 transB1 1 0 rank_a rank_b)"
  let ?p2 = "snd (add_primitive op ?gemm [] p1)"
  have "CreateMatMulOp op p = legacy_out_reshape op (layer_type_name_ID op) ?p2"
    unfolding CreateMatMulOp_unfold [OF size gi ra rb can]
    unfolding and_then_def [of ?first]
    by (simp add: first r and_then_add_primitive_present [OF p1])
  moreover have "m_topology ?p2 \<noteq> None" using p1 by (simp add: add_primitive_topology_None)
  moreover have "allow_new_shape_infer ?p2 = allow_new_shape_infer p"
    using allow1 by (simp add: add_primitive_frame)
  ultimately show ?thesis
    using False legacy_out_reshape_outcome [of ?p2 op "layer_type_name_ID op"] by simp
qed

lemma and_then_configuration:
  assumes "\<And>p. configuration (snd (m p)) = configuration p"
    and "\<And>a p. configuration (snd (f a p)) = configuration p"
  shows "configuration (snd (and_then m f p)) = configuration p"
proof (cases "m p")
  case (Pair r p')
  have "configuration p' = configuration p" using assms(1) [of p] Pair by simp
  then show ?thesis using Pair assms(2) by (cases r) (simp_all add: and_then_def)
qed

lemma transposeInput_configuration:
  "configuration (snd (transposeInput op shape sfx primitiveId p)) = configuration p"
  unfolding transposeInput_def Let_def
  by (rule and_then_configuration) (simp_all add: add_primitive_configuration return_def)

lemma transpose_fixup_configuration:
  "configuration (snd (transpose_fixup op shapes inputs ta tb p)) = configuration p"
  unfolding transpose_fixup_def
  by (intro and_then_configuration)
     (auto simp: return_def transposeInput_configuration intro!: and_then_configuration)

lemma legacy_out_reshape_configuration:
  "configuration (snd (legacy_out_reshape op nm p)) = configuration p"
  by (simp add: legacy_out_reshape_def Let_def throw_def return_def add_primitive_configuration
      split: sum.splits)

lemma CreateMatMulOp_configuration:
  "configuration (snd (CreateMatMulOp op p)) = configuration p"
  unfolding CreateMatMulOp_def Let_def
  by (intro and_then_configuration)
     (auto simp: lift_def return_def transpose_fixup_configuration add_primitive_configuration
        legacy_out_reshape_configuration intro!: and_then_configuration)

lemma CreateMatMulOp_early_failure:
  assumes "get_input_size op \<noteq> 2 \<or> isl (GetInputInfo p (Some op))
            \<or> isl (rank_get_length (get_input_partial_shape op 0))
            \<or> isl (rank_get_length (get_input_partial_shape op 1))"
  shows "isl (fst (CreateMatMulOp op p))"
  using assms
  by (auto simp: CreateMatMulOp_def and_then_def lift_def validate_inputs_count_def Let_def
      split: sum.splits)

lemma transpose_fixup_no_topology:
  assumes "m_topology p = None"
  shows "m_topology (snd (transpose_fixup op shapes inputs ta tb p)) = None"
  using assms
  by (cases ta; cases tb)
     (simp_all add: transpose_fixup_def and_then_def transposeInput_def Let_def
        add_primitive_no_topology return_def)

lemma CreateMatMulOp_tail:
  assumes "\<not> isl (fst (CreateMatMulOp op p))"
  shows "\<exists>p2. CreateMatMulOp op p = legacy_out_reshape op (layer_type_name_ID op) p2
           \<and> m_topology p2 \<noteq> None
           \<and> allow_new_shape_infer p2 = allow_new_shape_infer p"
proof -
  from assms CreateMatMulOp_early_failure [of op p]
  have early: "\<not> (get_input_size op \<noteq> 2 \<or> isl (GetInputInfo p (Some op))
            \<or> isl (rank_get_length (get_input_partial_shape op 0))
            \<or> isl (rank_get_length (get_input_partial_shape op 1)))"
    by blast
  then obtain inputs rank_a rank_b where size: "get_input_size op = 2"
    and gi: "GetInputInfo p (Some op) = Inr inputs"
    and ra: "rank_get_length (get_input_partial_shape op 0) = Inr rank_a"
    and rb: "rank_get_length (get_input_partial_shape op 1) = Inr rank_b"
    by (auto simp: isl_def) (metis sum.exhaust)
  obtain can where can: "canTransposeInputs p [get_input_partial_shape op 0, get_input_partial_shape op 1]
           (get_transpose_a (op_class op)) (get_transpose_b (op_class op))
           (get_input_element_type op 0) = Inr can"
    using canTransposeInputs_total
      [of p "[get_input_partial_shape op 0, get_input_partial_shape op 1]"
          "get_transpose_a (op_class op)" "get_transpose_b (op_class op)" "get_input_element_type op 0"]
    by (cases "canTransposeInputs p [get_input_partial_shape op 0, get_input_partial_shape op 1]
           (get_transpose_a (op_class op)) (get_transpose_b (op_class op))
           (get_input_element_type op 0)") auto
  let ?shapes = "[get_input_partial_shape op 0, get_input_partial_shape op 1]"
  let ?ta = "get_transpose_a (op_class op)" and ?tb = "get_transpose_b (op_class op)"
  let ?first = "if can then transpose_fixup op ?shapes inputs ?ta ?tb else return (inputs, ?ta, ?tb)"
  let ?rest = "\<lambda>(inputs1, transA1, transB1).
                and_then (add_primitive op
                            (new_primitive (layer_type_name_ID op)
                               (gemm inputs1 (element_type_to_data_type (get_output_element_type op 0))
                                  transA1 transB1 1 0 rank_a rank_b)) [])
                  (\<lambda>u. legacy_out_reshape op (layer_type_name_ID op))"
  have unfold: "CreateMatMulOp op p = and_then ?first ?rest p"
    by (rule CreateMatMulOp_unfold [OF size gi ra rb can])
  have present: "m_topology p \<noteq> None"
  proof
    assume none: "m_topology p = None"
    have "m_topology (snd (?first p)) = None"
      using none by (simp add: transpose_fixup_no_topology return_def)
    then have "isl (fst (and_then ?first ?rest p))"
      by (cases "?first p"; cases "fst (?first p)")
         (auto simp: and_then_def add_primitive_no_topology)
    with unfold assms show False by simp
  qed
  obtain r p1 where first: "?first p = (Inr r, p1)" and p1: "m_topology p1 \<noteq> None"
    and allow1: "allow_new_shape_infer p1 = allow_new_shape_infer p"
  proof (cases can)
    case True
    from transpose_fixup_present [OF present, of op ?shapes inputs ?ta ?tb]
    have "\<not> isl (fst (transpose_fixup op ?shapes inputs ?ta ?tb p))"
      and "m_topology (snd (transpose_fixup op ?shapes inputs ?ta ?tb p)) \<noteq> None"
      and "allow_new_shape_infer (snd (transpose_fixup op ?shapes inputs ?ta ?tb p)) = allow_new_shape_infer p"
      by blast+
    with True that [of _ "snd (transpose_fixup op ?shapes inputs ?ta ?tb p)"] show ?thesis
      by (cases "transpose_fixup op ?shapes inputs ?ta ?tb p"; cases "fst (transpose_fixup op ?shapes inputs ?ta ?tb p)") auto
  next
    case False
    with present that [of "(inputs, ?ta, ?tb)" p] show ?thesis by (simp add: return_def)
  qed
  obtain inputs1 transA1 transB1 where r: "r = (inputs1, transA1, transB1)" by (cases r)
  let ?gemm = "new_primitive (layer_type_name_ID op)
                 (gemm inputs1 (element_type_to_data_type (get_output_element_type op 0))
                    transA1 transB1 1 0 rank_a rank_b)"
  let ?p2 = "snd (add_primitive op ?gemm [] p1)"
  have "CreateMatMulOp op p = legacy_out_reshape op (layer_type_name_ID op) ?p2"
    unfolding unfold and_then_def [of ?first]
    by (simp add: first r and_then_add_primitive_present [OF p1])
  moreover have "m_topology ?p2 \<noteq> None" using p1 by (simp add: add_primitive_topology_None)
  moreover have "allow_new_shape_infer ?p2 = allow_new_shape_infer p"
    using allow1 by (simp add: add_primitive_frame)
  ultimately show ?thesis by blast
qed

lemma legacy_out_reshape_adds:
  assumes "m_topology p \<noteq> None" and "\<not> allow_new_shape_infer p"
    and "get_output_shape op 0 = Inr dims" and "length dims < 4"
  shows "legacy_out_reshape op nm p =
           add_primitive op (new_primitive (nm @ ''_cldnn_out_reshape'')
                               (reshape (input_info_of nm) (tensor_from_dims dims))) [] p"
  using assms by (simp add: legacy_out_reshape_def use_new_shape_infer_def Let_def)

section \<open>Dispatch and build\<close>

lemma walk_type_chain_unregistered:
  assumes "m_custom_layers p (get_type_name op) = None"
    and "\<forall>ti \<in> set (type_chain t). factories_map ti = None"
  shows "walk_type_chain factories_map CreateCustomOp op t p =
           (Inl (Exception (''Operation: '' @ get_friendly_name op @ '' of type '' @ get_type_name op
              @ ''('' @ version_id (get_type_info op) @ '') is not supported'')), p)"
  using assms(2)
proof (induction t rule: type_chain.induct)
  case (1 n v par)
  show ?case
  proof (cases par)
    case None
    with 1 assms(1) show ?thesis by (simp add: throw_def)
  next
    case (Some parent_info)
    with 1 assms(1) show ?thesis by simp
  qed
qed

text \<open>
  C7. When the custom-kernel table has no entry for the node's type name and the registry
  has no entry for the node's type identity nor for any of its ancestors,
  \<^verbatim>\<open>CreateSingleLayerPrimitive\<close> raises, leaving the builder as it was; the message of the
  exception contains the node's friendly name, its type name and its version identifier.
\<close>

theorem unsupported_operation_error:
  assumes "m_custom_layers p (get_type_name op) = None"
    and "\<forall>ti \<in> set (type_chain (get_type_info op)). factories_map ti = None"
  shows "CreateSingleLayerPrimitive factories_map CreateCustomOp op p =
           (Inl (Exception (''Operation: '' @ get_friendly_name op @ '' of type '' @ get_type_name op
              @ ''('' @ version_id (get_type_info op) @ '') is not supported'')), p)
       \<and> sublist (get_friendly_name op)
           (''Operation: '' @ get_friendly_name op @ '' of type '' @ get_type_name op
              @ ''('' @ version_id (get_type_info op) @ '') is not supported'')
       \<and> sublist (get_type_name op)
           (''Operation: '' @ get_friendly_name op @ '' of type '' @ get_type_name op
              @ ''('' @ version_id (get_type_info op) @ '') is not supported'')
       \<and> sublist (version_id (get_type_info op))
           (''Operation: '' @ get_friendly_name op @ '' of type '' @ get_type_name op
              @ ''('' @ version_id (get_type_info op) @ '') is not supported'')"
proof -
  have run: "CreateSingleLayerPrimitive factories_map CreateCustomOp op p =
           (Inl (Exception (''Operation: '' @ get_friendly_name op @ '' of type '' @ get_type_name op
              @ ''('' @ version_id (get_type_info op) @ '') is not supported'')), p)"
    unfolding CreateSingleLayerPrimitive_def by (rule walk_type_chain_unregistered [OF assms])
  have s: "sublist x (a @ x @ b)" for x a b :: string
    by (rule sublist_appendI)
  have n: "sublist (get_friendly_name op)
           (''Operation: '' @ get_friendly_name op @ '' of type '' @ get_type_name op
              @ ''('' @ version_id (get_type_info op) @ '') is not supported'')"
    by (rule s)
  have t: "sublist (get_type_name op)
           (''Operation: '' @ get_friendly_name op @ '' of type '' @ get_type_name op
              @ ''('' @ version_id (get_type_info op) @ '') is not supported'')"
    using s [of "get_type_name op" "''Operation: '' @ get_friendly_name op @ '' of type ''"
        "''('' @ version_id (get_type_info op) @ '') is not supported''"]
    by (simp only: append_assoc)
  have v: "sublist (version_id (get_type_info op))
           (''Operation: '' @ get_friendly_name op @ '' of type '' @ get_type_name op
              @ ''('' @ version_id (get_type_info op) @ '') is not supported'')"
    using s [of "version_id (get_type_info op)"
        "''Operation: '' @ get_friendly_name op @ '' of type '' @ get_type_name op @ ''(''"
        "'') is not supported''"]
    by (simp only: append_assoc)
  show ?thesis using run n t v by blast
qed

theorem unsupported_operation_error_witness:
  "m_custom_layers fresh_builder (get_type_name unregistered_node) = None
   \<and> list_all (\<lambda>ti. (matmul_registry :: NodeTypeInfo \<rightharpoonup> unit factory) ti = None)
       (type_chain (get_type_info unregistered_node))
   \<and> CreateSingleLayerPrimitive matmul_registry no_custom_op unregistered_node fresh_builder =
       (Inl (Exception ''Operation: foo1 of type Foo(extension) is not supported''), fresh_builder)"
proof -
  have c: "m_custom_layers fresh_builder (get_type_name unregistered_node) = None"
    by (simp add: fresh_builder_def)
  have r: "\<forall>ti \<in> set (type_chain (get_type_info unregistered_node)).
             (matmul_registry :: NodeTypeInfo \<rightharpoonup> unit factory) ti = None"
    by (simp add: unregistered_node_def matmul_registry_def MatMul_v0_def)
  from unsupported_operation_error [OF c r, of no_custom_op] c r
  show ?thesis
    by (simp add: unregistered_node_def get_type_name_def list_all_iff)
qed











section \<open>The support query\<close>

lemma probe_state_simps:
  "queryMode (probe_state op p)"
  "m_topology (probe_state op p) = Some []"
  "allow_new_shape_infer (probe_state op p) = requires_new_shape_infer op"
  "m_custom_layers (probe_state op p) = m_custom_layers p"
  "primitive_ids (probe_state op p) = primitive_ids p"
  "configuration (probe_state op p) = configuration p"
  by (simp_all add: probe_state_def prepare_build_def EnableQueryMode_def configuration_def)

lemma walk_type_chain_matmul_registry:
  fixes p :: "'cl ProgramBuilder"
  assumes "m_custom_layers p (get_type_name op) = None"
  shows "walk_type_chain matmul_registry CreateCustomOp op t p =
           (if MatMul_v0 \<in> set (type_chain t) then MatMul_factory op p
            else throw (Exception (''Operation: '' @ get_friendly_name op @ '' of type '' @ get_type_name op
              @ ''('' @ version_id (get_type_info op) @ '') is not supported'')) p)"
proof (induction t rule: type_chain.induct)
  case (1 n v par)
  show ?case
  proof (cases "NodeTypeInfo n v par = MatMul_v0")
    case True
    then have some: "(matmul_registry :: NodeTypeInfo \<rightharpoonup> 'cl factory) (NodeTypeInfo n v par) = Some MatMul_factory"
      by (simp add: matmul_registry_def)
    have "NodeTypeInfo n v par \<in> set (type_chain (NodeTypeInfo n v par))"
      by simp
    then have "MatMul_v0 \<in> set (type_chain (NodeTypeInfo n v par))"
      by (simp only: True)
    then show ?thesis using assms some by (simp del: type_chain.simps)
  next
    case False
    then have none: "(matmul_registry :: NodeTypeInfo \<rightharpoonup> 'cl factory) (NodeTypeInfo n v par) = None"
      by (auto simp: matmul_registry_def)
    show ?thesis
    proof (cases par)
      case None
      with assms none False show ?thesis by simp
    next
      case (Some parent_info)
      with assms none False 1 show ?thesis by simp
    qed
  qed
qed

lemma MatMul_factory_probe_outcome:
  "isl (fst (MatMul_factory op (probe_state op p))) =
     (case op_class op of
        Other_op \<Rightarrow> True
      | MatMul ta tb \<Rightarrow>
         (get_input_size op \<noteq> 2
          \<or> isl (rank_get_length (get_input_partial_shape op 0))
          \<or> isl (rank_get_length (get_input_partial_shape op 1))
          \<or> (\<not> requires_new_shape_infer op \<and> isl (get_output_shape op 0))))"
proof (cases "op_class op")
  case Other_op
  then show ?thesis by (simp add: MatMul_factory_def throw_def)
next
  case (MatMul ta tb)
  have "\<not> isl (GetInputInfo (probe_state op p) (Some op))"
    by (simp add: GetInputInfo_query probe_state_simps)
  then show ?thesis
    using MatMul CreateMatMulOp_outcome [of "probe_state op p" op]
    by (simp add: MatMul_factory_def probe_state_simps)
qed

lemma MatMul_factory_configuration:
  "configuration (snd (MatMul_factory op p)) = configuration p"
  by (cases "op_class op") (simp_all add: MatMul_factory_def CreateMatMulOp_configuration throw_def)

lemma matmul_registry_dispatch:
  "CreateSingleLayerPrimitive matmul_registry no_custom_op op p =
     (case m_custom_layers p (get_type_name op) of
        Some customLayer \<Rightarrow> (Inr (), p)
      | None \<Rightarrow>
         (if MatMul_v0 \<in> set (type_chain (get_type_info op)) then MatMul_factory op p
          else throw (Exception (''Operation: '' @ get_friendly_name op @ '' of type '' @ get_type_name op
              @ ''('' @ version_id (get_type_info op) @ '') is not supported'')) p))"
proof (cases "m_custom_layers p (get_type_name op)")
  case None
  then show ?thesis
    by (simp add: CreateSingleLayerPrimitive_def walk_type_chain_matmul_registry)
next
  case (Some customLayer)
  then show ?thesis
    unfolding CreateSingleLayerPrimitive_def
    by (cases "get_type_info op") (simp add: no_custom_op_def return_def)
qed

lemma is_op_supported_probe:
  "is_op_supported factories_map CreateCustomOp op p =
     (case CreateSingleLayerPrimitive factories_map CreateCustomOp op (probe_state op p) of
        (Inr u, p4) \<Rightarrow> (True, DisableQueryMode (cleanup_build p4))
      | (Inl e, p4) \<Rightarrow> (False, cleanup_build p4))"
  by (simp add: is_op_supported_def probe_state_def Let_def)

lemma is_op_supported_fst:
  "fst (is_op_supported factories_map CreateCustomOp op p) =
     (\<not> isl (fst (CreateSingleLayerPrimitive factories_map CreateCustomOp op (probe_state op p))))"
  by (simp add: is_op_supported_probe split: prod.splits sum.splits)

lemma is_op_supported_configuration:
  "configuration (snd (is_op_supported factories_map CreateCustomOp op p)) =
     configuration (snd (CreateSingleLayerPrimitive factories_map CreateCustomOp op (probe_state op p)))"
  by (simp add: is_op_supported_probe configuration_def cleanup_build_def DisableQueryMode_def
      split: prod.splits sum.splits)

lemma mm_1000_supported: "fst (is_op_supported matmul_registry no_custom_op mm_1000 fresh_builder)"
proof -
  have "\<not> isl (fst (MatMul_factory mm_1000 (probe_state mm_1000 fresh_builder)))"
    unfolding MatMul_factory_probe_outcome
    by (simp add: mm_1000_def matmul_node_simps static_shape_simps)
  moreover have "MatMul_v0 \<in> set (type_chain (get_type_info mm_1000))"
    by (simp add: mm_1000_def matmul_node_simps MatMul_v0_def)
  moreover have "m_custom_layers (probe_state mm_1000 fresh_builder) (get_type_name mm_1000) = None"
    by (simp add: probe_state_simps fresh_builder_def)
  ultimately show ?thesis
    by (simp add: is_op_supported_fst matmul_registry_dispatch)
qed

lemma matmul_registry_probe:
  fixes p :: "'cl ProgramBuilder"
  assumes "m_custom_layers p (get_type_name op) = None"
  shows "CreateSingleLayerPrimitive matmul_registry CreateCustomOp op (probe_state op p) =
           (if MatMul_v0 \<in> set (type_chain (get_type_info op)) then MatMul_factory op (probe_state op p)
            else throw (Exception (''Operation: '' @ get_friendly_name op @ '' of type '' @ get_type_name op
              @ ''('' @ version_id (get_type_info op) @ '') is not supported'')) (probe_state op p))"
proof -
  have "m_custom_layers (probe_state op p) (get_type_name op) = None"
    using assms by (simp add: probe_state_simps)
  then show ?thesis
    unfolding CreateSingleLayerPrimitive_def by (rule walk_type_chain_matmul_registry)
qed

lemma matmul_registry_probe_outcome:
  fixes p q :: "'cl ProgramBuilder"
  assumes "m_custom_layers p (get_type_name op) = None"
    and "m_custom_layers q (get_type_name op) = None"
  shows "isl (fst (CreateSingleLayerPrimitive matmul_registry CreateCustomOp op (probe_state op p)))
       = isl (fst (CreateSingleLayerPrimitive matmul_registry CreateCustomOp op (probe_state op q)))"
  by (simp add: matmul_registry_probe [OF assms(1)] matmul_registry_probe [OF assms(2)]
      MatMul_factory_probe_outcome throw_def)

lemma matmul_registry_probe_configuration:
  fixes p :: "'cl ProgramBuilder"
  assumes "m_custom_layers p (get_type_name op) = None"
  shows "configuration (snd (CreateSingleLayerPrimitive matmul_registry CreateCustomOp op (probe_state op p)))
           = configuration p"
  by (simp add: matmul_registry_probe [OF assms] MatMul_factory_configuration probe_state_simps throw_def)

lemma is_op_supported_unhandled:
  assumes "m_custom_layers p (get_type_name op) = None"
    and "\<forall>ti \<in> set (type_chain (get_type_info op)). factories_map ti = None"
  shows "is_op_supported factories_map CreateCustomOp op p = (False, cleanup_build (probe_state op p))"
proof -
  have "m_custom_layers (probe_state op p) (get_type_name op) = None"
    using assms(1) by (simp add: probe_state_simps)
  from walk_type_chain_unregistered [OF this assms(2), of CreateCustomOp]
  have "CreateSingleLayerPrimitive factories_map CreateCustomOp op (probe_state op p) =
           (Inl (Exception (''Operation: '' @ get_friendly_name op @ '' of type '' @ get_type_name op
              @ ''('' @ version_id (get_type_info op) @ '') is not supported'')), probe_state op p)"
    by (simp add: CreateSingleLayerPrimitive_def)
  then show ?thesis by (simp add: is_op_supported_probe)
qed

text \<open>
  C2 (as amended). After \<^verbatim>\<open>is_op_supported\<close> the topology pointer is null, on the success
  and on the failure path, and on the success path \<^verbatim>\<open>queryMode\<close> is false; this holds for
  every registry and every node. Nothing is promised for \<^verbatim>\<open>allow_new_shape_infer\<close> and the
  identity map in general: the flag is overwritten for the probe, and what the node's
  builder recorded stays recorded. When neither the custom-kernel table nor the registry
  handles the node, the answer is false, the identity map is as it was,
  \<^verbatim>\<open>allow_new_shape_infer\<close> holds what the node requires, and a second call answers false
  again. With the registry of the matrix-multiply builder and no custom kernel for the
  node's type name, the call leaves configuration, engine and custom-kernel table as they
  were, and calling it twice on the same node yields the same boolean.
\<close>

theorem is_op_supported_effect:
  "m_topology (snd (is_op_supported factories_map CreateCustomOp op p)) = None
   \<and> (fst (is_op_supported factories_map CreateCustomOp op p)
        \<longrightarrow> \<not> queryMode (snd (is_op_supported factories_map CreateCustomOp op p)))
   \<and> (m_custom_layers p (get_type_name op) = None
        \<and> (\<forall>ti \<in> set (type_chain (get_type_info op)). factories_map ti = None) \<longrightarrow>
        \<not> fst (is_op_supported factories_map CreateCustomOp op p)
        \<and> primitive_ids (snd (is_op_supported factories_map CreateCustomOp op p)) = primitive_ids p
        \<and> allow_new_shape_infer (snd (is_op_supported factories_map CreateCustomOp op p))
            = requires_new_shape_infer op
        \<and> \<not> fst (is_op_supported factories_map CreateCustomOp op
                   (snd (is_op_supported factories_map CreateCustomOp op p))))
   \<and> (m_custom_layers p (get_type_name op) = None \<longrightarrow>
        configuration (snd (is_op_supported matmul_registry CreateCustomOp op p)) = configuration p
        \<and> fst (is_op_supported matmul_registry CreateCustomOp op
                 (snd (is_op_supported matmul_registry CreateCustomOp op p)))
            = fst (is_op_supported matmul_registry CreateCustomOp op p))"
proof (intro conjI impI)
  let ?r = "is_op_supported factories_map CreateCustomOp op p"
  show "m_topology (snd ?r) = None"
    by (simp add: is_op_supported_probe cleanup_build_def DisableQueryMode_def
        split: prod.splits sum.splits)
  show "\<not> queryMode (snd ?r)" if "fst ?r"
    using that
    by (simp add: is_op_supported_probe cleanup_build_def DisableQueryMode_def
        split: prod.splits sum.splits)
next
  let ?r = "is_op_supported factories_map CreateCustomOp op p"
  assume h: "m_custom_layers p (get_type_name op) = None
        \<and> (\<forall>ti \<in> set (type_chain (get_type_info op)). factories_map ti = None)"
  then have r: "?r = (False, cleanup_build (probe_state op p))"
    by (simp add: is_op_supported_unhandled)
  have "m_custom_layers (cleanup_build (probe_state op p)) (get_type_name op) = None"
    using h by (simp add: cleanup_build_def probe_state_simps)
  then have again: "is_op_supported factories_map CreateCustomOp op (cleanup_build (probe_state op p))
                = (False, cleanup_build (probe_state op (cleanup_build (probe_state op p))))"
    using h by (simp add: is_op_supported_unhandled)
  show "\<not> fst ?r" by (simp add: r)
  show "primitive_ids (snd ?r) = primitive_ids p"
    by (simp add: r cleanup_build_def probe_state_simps)
  show "allow_new_shape_infer (snd ?r) = requires_new_shape_infer op"
    by (simp add: r cleanup_build_def probe_state_simps)
  show "\<not> fst (is_op_supported factories_map CreateCustomOp op (snd ?r))"
    by (simp add: r again)
next
  let ?r = "is_op_supported matmul_registry CreateCustomOp op p"
  assume c: "m_custom_layers p (get_type_name op) = None"
  show conf: "configuration (snd ?r) = configuration p"
    by (simp add: is_op_supported_configuration matmul_registry_probe_configuration [OF c])
  then have "m_custom_layers (snd ?r) (get_type_name op) = None"
    using c by (simp add: configuration_def)
  from matmul_registry_probe_outcome [OF this c, of CreateCustomOp]
  show "fst (is_op_supported matmul_registry CreateCustomOp op (snd ?r)) = fst ?r"
    by (simp add: is_op_supported_fst)
qed

theorem is_op_supported_effect_witness:
  "fst (is_op_supported matmul_registry no_custom_op mm_1000 fresh_builder)
   \<and> \<not> queryMode (snd (is_op_supported matmul_registry no_custom_op mm_1000 fresh_builder))
   \<and> m_topology (snd (is_op_supported matmul_registry no_custom_op mm_1000 fresh_builder)) = None
   \<and> m_custom_layers fresh_builder (get_type_name mm_1000) = None
   \<and> configuration (snd (is_op_supported matmul_registry no_custom_op mm_1000 fresh_builder))
       = configuration fresh_builder
   \<and> fst (is_op_supported matmul_registry no_custom_op mm_1000
            (snd (is_op_supported matmul_registry no_custom_op mm_1000 fresh_builder)))
   \<and> m_custom_layers fresh_builder (get_type_name unregistered_node) = None
   \<and> list_all (\<lambda>ti. (matmul_registry :: NodeTypeInfo \<rightharpoonup> unit factory) ti = None)
       (type_chain (get_type_info unregistered_node))
   \<and> \<not> fst (is_op_supported matmul_registry no_custom_op unregistered_node fresh_builder)
   \<and> primitive_ids (snd (is_op_supported matmul_registry no_custom_op unregistered_node fresh_builder))
       = primitive_ids fresh_builder
   \<and> \<not> fst (is_op_supported matmul_registry no_custom_op unregistered_node
              (snd (is_op_supported matmul_registry no_custom_op unregistered_node fresh_builder)))"
proof -
  have cm: "m_custom_layers fresh_builder (get_type_name mm_1000) = None"
    by (simp add: fresh_builder_def)
  have c: "m_custom_layers fresh_builder (get_type_name unregistered_node) = None"
    by (simp add: fresh_builder_def)
  have r: "\<forall>ti \<in> set (type_chain (get_type_info unregistered_node)).
             (matmul_registry :: NodeTypeInfo \<rightharpoonup> unit factory) ti = None"
    by (simp add: unregistered_node_def matmul_registry_def MatMul_v0_def)
  have r': "list_all (\<lambda>ti. (matmul_registry :: NodeTypeInfo \<rightharpoonup> unit factory) ti = None)
       (type_chain (get_type_info unregistered_node))"
    using r by (simp add: list_all_iff)
  note a = is_op_supported_effect [of matmul_registry no_custom_op mm_1000 fresh_builder]
  note b = is_op_supported_effect [of matmul_registry no_custom_op unregistered_node fresh_builder]
  have a1: "m_topology (snd (is_op_supported matmul_registry no_custom_op mm_1000 fresh_builder)) = None"
    using a by (rule conjunct1)
  have a2: "\<not> queryMode (snd (is_op_supported matmul_registry no_custom_op mm_1000 fresh_builder))"
    using a mm_1000_supported by simp
  have a3: "configuration (snd (is_op_supported matmul_registry no_custom_op mm_1000 fresh_builder))
       = configuration fresh_builder
     \<and> fst (is_op_supported matmul_registry no_custom_op mm_1000
            (snd (is_op_supported matmul_registry no_custom_op mm_1000 fresh_builder)))"
    using a cm mm_1000_supported by simp
  have b1: "\<not> fst (is_op_supported matmul_registry no_custom_op unregistered_node fresh_builder)
     \<and> primitive_ids (snd (is_op_supported matmul_registry no_custom_op unregistered_node fresh_builder))
       = primitive_ids fresh_builder
     \<and> \<not> fst (is_op_supported matmul_registry no_custom_op unregistered_node
              (snd (is_op_supported matmul_registry no_custom_op unregistered_node fresh_builder)))"
    using b c r by simp
  show ?thesis
    using a1 a2 a3 b1 c cm r' mm_1000_supported
    by (intro conjI) simp_all
qed

text \<open>
  C2, as stated, says that the call leaves \<^verbatim>\<open>allow_new_shape_infer\<close>, the topology pointer
  and the identity map as they were. On a builder whose topology is allocated and whose
  regime flag is set, the query of a static 16x16 MatMul succeeds, and afterwards the flag
  is clear, the pointer is null and the identity map has an entry for the node.
\<close>

theorem is_op_supported_changes_build_state:
  "fst (is_op_supported matmul_registry no_custom_op mm_16 topology_only_builder)
   \<and> primitive_ids (snd (is_op_supported matmul_registry no_custom_op mm_16 topology_only_builder))
        ''matmul:mm'' = Some ''matmul:mm_cldnn_out_reshape''
   \<and> primitive_ids topology_only_builder ''matmul:mm'' = None
   \<and> allow_new_shape_infer (snd (is_op_supported matmul_registry no_custom_op mm_16 topology_only_builder)) = False
   \<and> allow_new_shape_infer topology_only_builder = True
   \<and> m_topology (snd (is_op_supported matmul_registry no_custom_op mm_16 topology_only_builder)) = None
   \<and> m_topology topology_only_builder = Some []"
  by code_simp

text \<open>
  C9. In query mode \<^verbatim>\<open>GetInputInfo\<close> never raises: for every node it returns, for each
  input edge, the reference built from the producer's derived identity. The result does
  not depend on the identity map. So the support query of a MatMul node answers true on a
  fresh builder, whose identity map is empty.
\<close>

theorem query_mode_skips_identity_map:
  assumes "queryMode p"
  shows "GetInputInfo p (Some op) =
           Inr (map (\<lambda>i. \<lparr>pid = prevName_of p op i,
                  idx = (if is_legacy_multiple_outputs p (get_input_node_ptr op i) then 0
                         else static_cast_int (get_input_source_output_index op i))\<rparr>)
                [0..<get_input_size op])
       \<and> (\<forall>ids. GetInputInfo (p\<lparr>primitive_ids := ids\<rparr>) (Some op) = GetInputInfo p (Some op))
       \<and> fst (is_op_supported matmul_registry no_custom_op mm_1000 fresh_builder)
       \<and> primitive_ids fresh_builder = Map.empty"
proof -
  have indep: "GetInputInfo (p\<lparr>primitive_ids := ids\<rparr>) (Some op) = GetInputInfo p (Some op)" for ids
    using GetInputInfo_query [of "p\<lparr>primitive_ids := ids\<rparr>" op] GetInputInfo_query [OF assms, of op] assms
    by (simp add: prevName_of_primitive_ids_update is_legacy_primitive_ids_update)
  have "primitive_ids fresh_builder = Map.empty" by (simp add: fresh_builder_def)
  with GetInputInfo_query [OF assms, of op] indep mm_1000_supported show ?thesis
    by (intro conjI allI)
qed

theorem query_mode_skips_identity_map_witness:
  "queryMode (EnableQueryMode fresh_builder)
   \<and> GetInputInfo (EnableQueryMode fresh_builder) (Some mm_1000) =
       Inr [\<lparr>pid = ''parameter:a'', idx = 0\<rparr>, \<lparr>pid = ''parameter:b'', idx = 0\<rparr>]
   \<and> primitive_ids (EnableQueryMode fresh_builder) ''parameter:a'' = None
   \<and> fst (is_op_supported matmul_registry no_custom_op mm_1000 fresh_builder)"
proof -
  have q: "queryMode (EnableQueryMode fresh_builder)" by (simp add: EnableQueryMode_def)
  have n: "primitive_ids (EnableQueryMode fresh_builder) ''parameter:a'' = None"
    by (simp add: EnableQueryMode_def fresh_builder_def)
  have e: "map (\<lambda>i. \<lparr>pid = prevName_of (EnableQueryMode fresh_builder) mm_1000 i,
                  idx = (if is_legacy_multiple_outputs (EnableQueryMode fresh_builder) (get_input_node_ptr mm_1000 i) then 0
                         else static_cast_int (get_input_source_output_index mm_1000 i))\<rparr>)
                [0..<get_input_size mm_1000]
           = [\<lparr>pid = ''parameter:a'', idx = 0\<rparr>, \<lparr>pid = ''parameter:b'', idx = 0\<rparr>]"
    by code_simp
  from query_mode_skips_identity_map [OF q, of mm_1000] q n show ?thesis
    by (simp add: e)
qed

section \<open>The identity of a node after several primitives\<close>

text \<open>
  C10. After every call of \<^verbatim>\<open>add_primitive\<close> that returns, the entry of the identity map
  under the node's identity is the id of the primitive just added. So when the
  matrix-multiply builder has run in the legacy regime on a node whose output has rank below
  4, the node's identity maps to the id of the reshape, which is the last primitive in the
  topology, and an input edge of a consumer that reads this node resolves to the reshape.
\<close>

theorem node_identity_maps_to_last_primitive:
  "(add_primitive op prim aliases p = (Inr (), p') \<longrightarrow>
      primitive_ids p' (layer_type_name_ID op) = Some (primitive_id prim))
   \<and> (CreateMatMulOp op p = (Inr (), p') \<and> \<not> allow_new_shape_infer p
        \<and> get_output_shape op 0 = Inr dims \<and> length dims < 4 \<longrightarrow>
        primitive_ids p' (layer_type_name_ID op) = Some (layer_type_name_ID op @ ''_cldnn_out_reshape'')
        \<and> (\<exists>topo. m_topology p' = Some topo \<and> topo \<noteq> []
              \<and> primitive_id (last topo) = layer_type_name_ID op @ ''_cldnn_out_reshape'')
        \<and> (\<forall>consumer i infos.
              \<not> queryMode p' \<and> GetInputInfo p' (Some consumer) = Inr infos
              \<and> i < get_input_size consumer \<and> get_input_node_ptr consumer i = op
              \<and> get_output_size op \<le> 1 \<longrightarrow>
              pid (infos ! i) = layer_type_name_ID op @ ''_cldnn_out_reshape''))"
proof (intro conjI impI)
  assume a: "add_primitive op prim aliases p = (Inr (), p')"
  then obtain topo where "m_topology p = Some topo" using add_primitive_returns by blast
  from add_primitive_ids [OF this, of op prim aliases "layer_type_name_ID op"] a
  show "primitive_ids p' (layer_type_name_ID op) = Some (primitive_id prim)" by simp
next
  assume h: "CreateMatMulOp op p = (Inr (), p') \<and> \<not> allow_new_shape_infer p
        \<and> get_output_shape op 0 = Inr dims \<and> length dims < 4"
  let ?nm = "layer_type_name_ID op"
  let ?prim = "new_primitive (?nm @ ''_cldnn_out_reshape'') (reshape (input_info_of ?nm) (tensor_from_dims dims))"
  from h have "\<not> isl (fst (CreateMatMulOp op p))" by simp
  from CreateMatMulOp_tail [OF this] obtain p2 where
    tail: "CreateMatMulOp op p = legacy_out_reshape op ?nm p2"
    and p2: "m_topology p2 \<noteq> None" and allow2: "allow_new_shape_infer p2 = allow_new_shape_infer p"
    by blast
  from p2 obtain topo2 where topo2: "m_topology p2 = Some topo2" by blast
  have "legacy_out_reshape op ?nm p2 = add_primitive op ?prim [] p2"
    using legacy_out_reshape_adds [OF p2, of op dims ?nm] allow2 h by simp
  with tail h have "add_primitive op ?prim [] p2 = (Inr (), p')" by simp
  then have p': "p' = snd (add_primitive op ?prim [] p2)" by (metis snd_conv)
  have ids: "primitive_ids p' ?nm = Some (?nm @ ''_cldnn_out_reshape'')"
    unfolding p' using add_primitive_ids [OF topo2, of op ?prim "[]" ?nm]
    by (simp add: new_primitive_def)
  from kind_add_primitive_last [OF topo2, of op ?prim "[]"]
  have lastp: "\<exists>topo. m_topology p' = Some topo \<and> topo \<noteq> []
              \<and> primitive_id (last topo) = ?nm @ ''_cldnn_out_reshape''"
    unfolding p' by (auto simp: new_primitive_def)
  have cons: "pid (infos ! i) = ?nm @ ''_cldnn_out_reshape''"
    if c: "\<not> queryMode p' \<and> GetInputInfo p' (Some consumer) = Inr infos
              \<and> i < get_input_size consumer \<and> get_input_node_ptr consumer i = op
              \<and> get_output_size op \<le> 1" for consumer i infos
  proof -
    have "prevName_of p' consumer i = ?nm"
      using c prevName_of_single_output [of consumer i p'] by simp
    moreover have "primitive_ids p' (prevName_of p' consumer i) = Some (pid (infos ! i))"
      using c GetInputInfo_build_resolves [of p' consumer infos i] by blast
    ultimately show ?thesis using ids by simp
  qed
  show "primitive_ids p' ?nm = Some (?nm @ ''_cldnn_out_reshape'')" by (rule ids)
  show "\<exists>topo. m_topology p' = Some topo \<and> topo \<noteq> []
              \<and> primitive_id (last topo) = ?nm @ ''_cldnn_out_reshape''" by (rule lastp)
  show "\<forall>consumer i infos.
              \<not> queryMode p' \<and> GetInputInfo p' (Some consumer) = Inr infos
              \<and> i < get_input_size consumer \<and> get_input_node_ptr consumer i = op
              \<and> get_output_size op \<le> 1 \<longrightarrow>
              pid (infos ! i) = ?nm @ ''_cldnn_out_reshape''"
    using cons by blast
qed

theorem node_identity_maps_to_last_primitive_witness:
  "add_primitive split_node crop_out0 [] (prepare_build fresh_builder)
     = (Inr (), snd (add_primitive split_node crop_out0 [] (prepare_build fresh_builder)))
   \<and> primitive_ids (snd (add_primitive split_node crop_out0 [] (prepare_build fresh_builder))) ''split:s''
       = Some ''split:s.out0''
   \<and> CreateMatMulOp mm_16 parameters_lowered = (Inr (), snd (CreateMatMulOp mm_16 parameters_lowered))
   \<and> \<not> allow_new_shape_infer parameters_lowered
   \<and> get_output_shape mm_16 0 = Inr [16, 16]
   \<and> primitive_ids (snd (CreateMatMulOp mm_16 parameters_lowered)) ''matmul:mm''
       = Some ''matmul:mm_cldnn_out_reshape''
   \<and> GetInputInfo (snd (CreateMatMulOp mm_16 parameters_lowered)) (Some mm_consumer)
       = Inr [\<lparr>pid = ''matmul:mm_cldnn_out_reshape'', idx = 0\<rparr>]"
proof -
  let ?q = "prepare_build fresh_builder"
  let ?q' = "snd (add_primitive split_node crop_out0 [] ?q)"
  have "m_topology ?q = Some []" by (simp add: prepare_build_def)
  then have add: "add_primitive split_node crop_out0 [] ?q = (Inr (), ?q')"
    by (rule add_primitive_eq)
  have names: "layer_type_name_ID split_node = ''split:s''" "primitive_id crop_out0 = ''split:s.out0''"
    by (simp_all add: layer_type_name_ID_def layer_type_lower_def split_node_def get_type_name_def
        tolower_def crop_out0_def new_primitive_def)
  from node_identity_maps_to_last_primitive [of split_node crop_out0 "[]" ?q ?q' "[]"] add
  have first: "primitive_ids ?q' ''split:s'' = Some ''split:s.out0''"
    by (simp add: names)
  let ?p' = "snd (CreateMatMulOp mm_16 parameters_lowered)"
  have ok: "fst (CreateMatMulOp mm_16 parameters_lowered) = Inr ()" by code_simp
  then have run: "CreateMatMulOp mm_16 parameters_lowered = (Inr (), ?p')"
    by (cases "CreateMatMulOp mm_16 parameters_lowered") simp
  have legacy: "\<not> allow_new_shape_infer parameters_lowered" by (simp add: parameters_lowered_simps)
  have out: "get_output_shape mm_16 0 = Inr [16, 16]" by (simp add: mm_16_def matmul_node_simps)
  have gi: "GetInputInfo ?p' (Some mm_consumer) = Inr [\<lparr>pid = ''matmul:mm_cldnn_out_reshape'', idx = 0\<rparr>]"
    by code_simp
  have nm: "layer_type_name_ID mm_16 = ''matmul:mm''" by (simp add: mm_16_def matmul_node_simps)
  from node_identity_maps_to_last_primitive
         [of mm_16 "new_primitive ''unused'' data" "[]" parameters_lowered ?p' "[16, 16]"]
       run legacy out
  have "primitive_ids ?p' (layer_type_name_ID mm_16) = Some (layer_type_name_ID mm_16 @ ''_cldnn_out_reshape'')"
    by simp
  then have second: "primitive_ids ?p' ''matmul:mm'' = Some ''matmul:mm_cldnn_out_reshape''"
    by (simp add: nm)
  show ?thesis
    by (intro conjI add first run legacy out second gi)
qed

end
